theory Spec2Isabelle
  imports Main
begin

section \<open>JavaScript values used by the SSH connection wrapper\<close>

text \<open>
  The development embeds \<^verbatim>\<open>ssh/sshConnection.ts\<close> (the variant with
  \<^verbatim>\<open>buildSSHArgs\<close> and a logger, the one \<^verbatim>\<open>authResolver.ts\<close> constructs) and
  \<^verbatim>\<open>authResolver.ts\<close>. Numbers that the code handles (ports, time-outs, exit codes)
  are integers and are modelled as \<open>int\<close>; an optional field is an \<open>option\<close>, with
  \<open>None\<close> for \<^verbatim>\<open>undefined\<close> (or \<^verbatim>\<open>null\<close> for an exit code).
\<close>

subsection \<open>Number and string conversion\<close>

text \<open>\<^verbatim>\<open>Number.prototype.toString\<close> on an integer: decimal digits, a minus sign when negative.\<close>

fun digits :: "nat \<Rightarrow> string" where
  "digits n =
     (if n < 10 then [''0123456789'' ! n]
      else digits (n div 10) @ [''0123456789'' ! (n mod 10)])"

definition num_toString :: "int \<Rightarrow> string" where
  "num_toString i = (if i < 0 then ''-'' @ digits (nat (- i)) else digits (nat i))"

text \<open>A template literal \<^verbatim>\<open>${x}\<close>: \<^verbatim>\<open>undefined\<close> and \<^verbatim>\<open>null\<close> print as words.\<close>

definition tmpl_num :: "int option \<Rightarrow> string" where
  "tmpl_num v = (case v of None \<Rightarrow> ''undefined'' | Some i \<Rightarrow> num_toString i)"

definition tmpl_code :: "int option \<Rightarrow> string" where
  "tmpl_code v = (case v of None \<Rightarrow> ''null'' | Some i \<Rightarrow> num_toString i)"

definition tmpl_str :: "string option \<Rightarrow> string" where
  "tmpl_str v = (case v of None \<Rightarrow> ''undefined'' | Some s \<Rightarrow> s)"

text \<open>Truthiness of an optional string and of an optional number.\<close>

definition truthy_str :: "string option \<Rightarrow> bool" where
  "truthy_str v = (case v of None \<Rightarrow> False | Some s \<Rightarrow> s \<noteq> [])"

definition truthy_num :: "int option \<Rightarrow> bool" where
  "truthy_num v = (case v of None \<Rightarrow> False | Some i \<Rightarrow> i \<noteq> 0)"

text \<open>\<^verbatim>\<open>Array.prototype.join\<close> with a separator.\<close>

fun join :: "string \<Rightarrow> string list \<Rightarrow> string" where
  "join sep [] = []"
| "join sep [x] = x"
| "join sep (x # y # ys) = x @ sep @ join sep (y # ys)"

text \<open>\<^verbatim>\<open>String.prototype.includes\<close>: the needle occurs as a contiguous substring.\<close>

fun is_prefix :: "string \<Rightarrow> string \<Rightarrow> bool" where
  "is_prefix [] ys = True"
| "is_prefix (x # xs) [] = False"
| "is_prefix (x # xs) (y # ys) = (x = y \<and> is_prefix xs ys)"

fun str_includes :: "string \<Rightarrow> string \<Rightarrow> bool" where
  "str_includes [] needle = (needle = [])"
| "str_includes (c # cs) needle = (is_prefix needle (c # cs) \<or> str_includes cs needle)"

text \<open>
  A thrown or rejected value: an \<^verbatim>\<open>Error\<close> object with its message, the host
  editor's \<^verbatim>\<open>RemoteAuthorityResolverError\<close> (a subclass of \<^verbatim>\<open>Error\<close>) with its
  message, or any other value, kept by its \<^verbatim>\<open>String(...)\<close> rendering.
\<close>

datatype thrown = Error string | RemoteAuthorityResolverError string | NonError string

text \<open>A promise settles once: a later \<^verbatim>\<open>resolve\<close> or \<^verbatim>\<open>reject\<close> is ignored.\<close>

datatype 'a promise = Pending | Resolved 'a | Rejected thrown

definition settle :: "'a promise \<Rightarrow> 'a promise \<Rightarrow> 'a promise" where
  "settle p new = (case p of Pending \<Rightarrow> new | _ \<Rightarrow> p)"

section \<open>The connection configuration\<close>

text \<open>
  A property of the options object passed to the constructor is absent, or present;
  a present property holds \<^verbatim>\<open>undefined\<close> (\<open>None\<close>) or a value.
\<close>

datatype 'a property = Absent | Present "'a option"

record SSHConnectOptions =
  o_host :: string
  o_port :: "int property"
  o_username :: "string property"
  o_identity :: "string property"
  o_connectTimeout :: "int property"
  o_sshOptions :: "string list property"

record SSHConnectConfig =
  host :: string
  port :: "int option"
  username :: "string option"
  identity :: "string option"
  connectTimeout :: "int option"
  sshOptions :: "string list option"

text \<open>
  \<^verbatim>\<open>Object.assign({}, defaultOptions, options)\<close> copies every own property of
  \<^verbatim>\<open>options\<close> over the default, also one whose value is \<^verbatim>\<open>undefined\<close>.
\<close>

definition assign_prop :: "'a option \<Rightarrow> 'a property \<Rightarrow> 'a option" where
  "assign_prop dflt p = (case p of Absent \<Rightarrow> dflt | Present v \<Rightarrow> v)"

definition defaultOptions_port :: "int option" where
  "defaultOptions_port = Some 22"

definition defaultOptions_connectTimeout :: "int option" where
  "defaultOptions_connectTimeout = Some 60"

definition constructor_config :: "SSHConnectOptions \<Rightarrow> SSHConnectConfig" where
  "constructor_config options =
     \<lparr> host = o_host options,
       port = assign_prop defaultOptions_port (o_port options),
       username = assign_prop None (o_username options),
       identity = assign_prop None (o_identity options),
       connectTimeout = assign_prop defaultOptions_connectTimeout (o_connectTimeout options),
       sshOptions = assign_prop None (o_sshOptions options) \<rparr>"

section \<open>Argument building\<close>

text \<open>\<^verbatim>\<open>buildSSHArgs\<close>: each \<^verbatim>\<open>push\<close> of the source is one step of the chain.\<close>

definition push_identity :: "SSHConnectConfig \<Rightarrow> string list \<Rightarrow> string list" where
  "push_identity c sshArgs =
     (case identity c of
        None \<Rightarrow> sshArgs
      | Some i \<Rightarrow> if i \<noteq> [] then sshArgs @ [''-i'', i] else sshArgs)"

definition push_port :: "SSHConnectConfig \<Rightarrow> string list \<Rightarrow> string list" where
  "push_port c sshArgs =
     (case port c of
        None \<Rightarrow> sshArgs
      | Some p \<Rightarrow> if p \<noteq> 0 \<and> p \<noteq> 22 then sshArgs @ [''-p'', num_toString p] else sshArgs)"

definition push_sshOptions :: "SSHConnectConfig \<Rightarrow> string list \<Rightarrow> string list" where
  "push_sshOptions c sshArgs =
     (case sshOptions c of
        None \<Rightarrow> sshArgs
      | Some os \<Rightarrow> if length os > 0 then sshArgs @ os else sshArgs)"

definition destination :: "SSHConnectConfig \<Rightarrow> string" where
  "destination c =
     (case username c of
        None \<Rightarrow> host c
      | Some u \<Rightarrow> if u \<noteq> [] then u @ ''@'' @ host c else host c)"

definition buildSSHArgs :: "SSHConnectConfig \<Rightarrow> string list" where
  "buildSSHArgs c =
     (let sshArgs0 =
            [''-o'', ''ConnectTimeout='' @ tmpl_num (connectTimeout c),
             ''-o'', ''ServerAliveInterval=60'',
             ''-o'', ''ServerAliveCountMax=3'',
             ''-o'', ''EnableEscapeCommandline=yes'',
             ''-T''];
          sshArgs1 = push_identity c sshArgs0;
          sshArgs2 = push_port c sshArgs1;
          sshArgs3 = push_sshOptions c sshArgs2
      in sshArgs3 @ [destination c])"

section \<open>One-shot command execution\<close>

text \<open>
  What the spawned child process does is the environment's choice: a sequence of events
  on its streams and on the process object. \<open>Close\<close> carries the exit code
  (\<open>None\<close> is \<^verbatim>\<open>null\<close>, the process was ended by a signal); \<open>ProcError\<close> is the
  \<^verbatim>\<open>'error'\<close> event (the operating system could not start the process).
\<close>

datatype proc_event =
    StdoutData string
  | StderrData string
  | Close "int option"
  | ProcError thrown

text \<open>\<^verbatim>\<open>cmd += (Array.isArray(params) ? (' ' + params.join(' ')) : '')\<close>\<close>

definition command_line :: "string \<Rightarrow> string list option \<Rightarrow> string" where
  "command_line cmd params =
     cmd @ (case params of None \<Rightarrow> [] | Some ps \<Rightarrow> '' '' @ join '' '' ps)"

text \<open>The argument vector handed to \<^verbatim>\<open>cp.spawn('ssh', sshArgs)\<close> by both exec functions.\<close>

definition exec_sshArgs :: "SSHConnectConfig \<Rightarrow> string \<Rightarrow> string list option \<Rightarrow> string list" where
  "exec_sshArgs c cmd params = buildSSHArgs c @ [command_line cmd params]"

record exec_state =
  x_stdout :: string
  x_stderr :: string
  x_promise :: "(string \<times> string) promise"

definition exec_init :: exec_state where
  "exec_init = \<lparr> x_stdout = [], x_stderr = [], x_promise = Pending \<rparr>"

text \<open>
  The four handlers \<^verbatim>\<open>exec\<close> installs; \<open>ign\<close> is \<^verbatim>\<open>options.ignoreExitCode\<close>. The
  informational log line written before the spawn is not recorded.
\<close>

definition exec_on :: "string list \<Rightarrow> bool \<Rightarrow> exec_state \<Rightarrow> proc_event \<Rightarrow> exec_state" where
  "exec_on sshArgs ign s ev =
     (case ev of
        StdoutData d \<Rightarrow> s\<lparr> x_stdout := x_stdout s @ d \<rparr>
      | StderrData d \<Rightarrow> s\<lparr> x_stderr := x_stderr s @ d \<rparr>
      | Close code \<Rightarrow>
          if code = Some 0 \<or> ign
          then s\<lparr> x_promise := settle (x_promise s) (Resolved (x_stdout s, x_stderr s)) \<rparr>
          else s\<lparr> x_promise := settle (x_promise s)
                  (Rejected (Error (''Command '' @ join '','' sshArgs @ '' failed with exit code ''
                     @ tmpl_code code @ '': '' @ x_stdout s @ '' '' @ x_stderr s))) \<rparr>
      | ProcError err \<Rightarrow> s\<lparr> x_promise := settle (x_promise s) (Rejected err) \<rparr>)"

definition exec :: "SSHConnectConfig \<Rightarrow> string \<Rightarrow> string list option \<Rightarrow> bool \<Rightarrow> proc_event list
    \<Rightarrow> exec_state" where
  "exec c cmd params ign evs = foldl (exec_on (exec_sshArgs c cmd params) ign) exec_init evs"

section \<open>Execution until a condition holds\<close>

text \<open>
  Calls the handlers make on the promise and on the child process are recorded in the
  order they happen. \<^verbatim>\<open>execAndWaitUntil\<close> has no call of \<^verbatim>\<open>kill\<close>.
\<close>

datatype 'a call = CallResolve 'a | CallReject thrown | CallKill

record wait_state =
  w_stdout :: string
  w_stderr :: string
  w_resolved :: bool
  w_promise :: "(string \<times> string) promise"
  w_calls :: "(string \<times> string) call list"

definition wait_init :: wait_state where
  "wait_init = \<lparr> w_stdout = [], w_stderr = [], w_resolved = False, w_promise = Pending,
                  w_calls = [] \<rparr>"

definition wait_test :: "(string \<Rightarrow> string \<Rightarrow> bool) \<Rightarrow> wait_state \<Rightarrow> wait_state" where
  "wait_test tester s =
     (if \<not> w_resolved s \<and> tester (w_stdout s) (w_stderr s)
      then s\<lparr> w_resolved := True,
              w_promise := settle (w_promise s) (Resolved (w_stdout s, w_stderr s)),
              w_calls := w_calls s @ [CallResolve (w_stdout s, w_stderr s)] \<rparr>
      else s)"

definition wait_on :: "(string \<Rightarrow> string \<Rightarrow> bool) \<Rightarrow> bool \<Rightarrow> wait_state \<Rightarrow> proc_event \<Rightarrow> wait_state" where
  "wait_on tester ign s ev =
     (case ev of
        StdoutData d \<Rightarrow> wait_test tester (s\<lparr> w_stdout := w_stdout s @ d \<rparr>)
      | StderrData d \<Rightarrow> wait_test tester (s\<lparr> w_stderr := w_stderr s @ d \<rparr>)
      | Close code \<Rightarrow>
          if \<not> w_resolved s then
            (if code = Some 0 \<or> ign
             then s\<lparr> w_promise := settle (w_promise s) (Resolved (w_stdout s, w_stderr s)),
                     w_calls := w_calls s @ [CallResolve (w_stdout s, w_stderr s)] \<rparr>
             else s\<lparr> w_promise := settle (w_promise s)
                       (Rejected (Error (''Command failed with exit code '' @ tmpl_code code
                          @ '': '' @ w_stdout s @ '' '' @ w_stderr s))),
                     w_calls := w_calls s @
                       [CallReject (Error (''Command failed with exit code '' @ tmpl_code code
                          @ '': '' @ w_stdout s @ '' '' @ w_stderr s))] \<rparr>)
          else s
      | ProcError err \<Rightarrow>
          if \<not> w_resolved s
          then s\<lparr> w_promise := settle (w_promise s) (Rejected err),
                  w_calls := w_calls s @ [CallReject err] \<rparr>
          else s)"

text \<open>
  The child process is spawned with \<open>exec_sshArgs\<close> as for \<^verbatim>\<open>exec\<close>; no handler reads
  the arguments, so the run depends on the tester, the option and the events only.
\<close>

definition execAndWaitUntil :: "(string \<Rightarrow> string \<Rightarrow> bool) \<Rightarrow> bool \<Rightarrow> proc_event list \<Rightarrow> wait_state" where
  "execAndWaitUntil tester ign evs = foldl (wait_on tester ign) wait_init evs"

text \<open>The text accumulated from the data chunks of a trace.\<close>

fun out_of :: "proc_event list \<Rightarrow> string" where
  "out_of [] = []"
| "out_of (StdoutData d # evs) = d @ out_of evs"
| "out_of (ev # evs) = out_of evs"

fun err_of :: "proc_event list \<Rightarrow> string" where
  "err_of [] = []"
| "err_of (StderrData d # evs) = d @ err_of evs"
| "err_of (ev # evs) = err_of evs"

fun is_data :: "proc_event \<Rightarrow> bool" where
  "is_data (StdoutData d) = True"
| "is_data (StderrData d) = True"
| "is_data ev = False"

text \<open>
  A trace of data chunks on which the tester stays false: \<open>quiet tester out err evs\<close>
  holds when, starting from the accumulated texts \<open>out\<close> and \<open>err\<close>, every event of
  \<open>evs\<close> is a chunk after which the tester returns false.
\<close>

fun quiet :: "(string \<Rightarrow> string \<Rightarrow> bool) \<Rightarrow> string \<Rightarrow> string \<Rightarrow> proc_event list \<Rightarrow> bool" where
  "quiet tester out err [] = True"
| "quiet tester out err (StdoutData d # evs) =
     (\<not> tester (out @ d) err \<and> quiet tester (out @ d) err evs)"
| "quiet tester out err (StderrData d # evs) =
     (\<not> tester out (err @ d) \<and> quiet tester out (err @ d) evs)"
| "quiet tester out err (ev # evs) = False"

section \<open>Lifecycle events\<close>

record SSHTunnelConfig =
  remoteAddr :: "string option"
  localPort :: "int option"
  remotePort :: "int option"
  remoteSocketPath :: "string option"
  name :: "string option"

text \<open>
  The object stored in the active-tunnel map: the spread tunnel configuration, the
  local port and the handle of the child process (its index among the spawned ones).
\<close>

record tunnel = SSHTunnelConfig +
  process :: nat

text \<open>The status payloads the code builds, and the arguments a listener receives.\<close>

datatype payload =
    ConfigPayload SSHTunnelConfig
  | ConfigErrPayload SSHTunnelConfig thrown
  | TunnelPayload tunnel

datatype arg = StatusArg string | ClientArg | PayloadArg "payload option"

text \<open>
  The overriding \<^verbatim>\<open>emit(channel, status, payload)\<close> calls the inherited emitter
  twice; each call is recorded as the event name with the listener arguments.
\<close>

definition emit :: "string \<Rightarrow> string \<Rightarrow> payload option \<Rightarrow> (string \<times> arg list) list
    \<Rightarrow> (string \<times> arg list) list" where
  "emit channel status pl emitted0 =
     (let emitted1 = emitted0 @ [(channel, [StatusArg status, ClientArg, PayloadArg pl])]
      in emitted1 @ [(channel @ '':'' @ status, [ClientArg, PayloadArg pl])])"

definition CHANNEL_SSH :: string where "CHANNEL_SSH = ''ssh''"
definition CHANNEL_TUNNEL :: string where "CHANNEL_TUNNEL = ''tunnel''"
definition STATUS_BEFORECONNECT :: string where "STATUS_BEFORECONNECT = ''beforeconnect''"
definition STATUS_CONNECT :: string where "STATUS_CONNECT = ''connect''"
definition STATUS_BEFOREDISCONNECT :: string where "STATUS_BEFOREDISCONNECT = ''beforedisconnect''"
definition STATUS_DISCONNECT :: string where "STATUS_DISCONNECT = ''disconnect''"

section \<open>Tunnels\<close>

text \<open>
  One entry per call of \<^verbatim>\<open>_startTunnelProcess\<close>: the variables its closures share
  (the configuration, the tunnel object, the collected stderr text, the promise) and the
  two fields of the child process the code reads or changes (\<^verbatim>\<open>exitCode\<close>, which the
  runtime sets when the process exits or cannot be started, and whether \<^verbatim>\<open>kill\<close> was
  called).
\<close>

record attempt =
  a_sshArgs :: "string list"
  a_config :: SSHTunnelConfig
  a_tunnel :: tunnel
  a_stderr :: string
  a_promise :: "tunnel promise"
  a_exitCode :: "int option"
  a_killed :: bool

text \<open>
  The connection object. \<open>attempts\<close> lists the tunnel processes spawned so far (a
  process handle is an index into it); \<open>allocs\<close> lists the calls of
  \<^verbatim>\<open>_createTunnel\<close> that asked the operating system for a free port, each with the
  attempt it started once the port arrived.

  The active-tunnel map is a plain object created by \<^verbatim>\<open>{}\<close>. \<open>activeTunnels\<close> holds
  its own properties. Its prototype is \<^verbatim>\<open>Object.prototype\<close> (\<open>tunnelsProto = None\<close>)
  unless an assignment to the key \<^verbatim>\<open>__proto__\<close> has replaced it by a tunnel object.
\<close>

record conn =
  config :: SSHConnectConfig
  activeTunnels :: "string \<Rightarrow> tunnel option"
  tunnelsProto :: "tunnel option"
  attempts :: "attempt list"
  allocs :: "(SSHTunnelConfig \<times> nat option) list"
  emitted :: "(string \<times> arg list) list"
  logged :: "string list"

definition new_SSHConnection :: "SSHConnectOptions \<Rightarrow> conn" where
  "new_SSHConnection options =
     \<lparr> config = constructor_config options, activeTunnels = (\<lambda>k. None),
       tunnelsProto = None, attempts = [], allocs = [], emitted = [], logged = [] \<rparr>"

definition conn_emit :: "string \<Rightarrow> string \<Rightarrow> payload option \<Rightarrow> conn \<Rightarrow> conn" where
  "conn_emit channel status pl s = s\<lparr> emitted := emit channel status pl (emitted s) \<rparr>"

text \<open>
  What a read \<^verbatim>\<open>this.activeTunnels[name]\<close> can give: a stored tunnel object; a member
  inherited from \<^verbatim>\<open>Object.prototype\<close> (a function, kept by its name);
  \<^verbatim>\<open>Object.prototype\<close> itself (the key \<^verbatim>\<open>__proto__\<close>); or, when a tunnel object has
  become the prototype, the value of one of its fields. \<open>None\<close> is \<^verbatim>\<open>undefined\<close>.
\<close>

datatype js_value =
    TunnelObj tunnel
  | ProtoMember string
  | ObjectPrototype
  | StrVal string
  | NumVal int
  | ProcessObj nat

definition truthy_value :: "js_value option \<Rightarrow> bool" where
  "truthy_value v =
     (case v of
        None \<Rightarrow> False
      | Some (StrVal str) \<Rightarrow> str \<noteq> []
      | Some (NumVal n) \<Rightarrow> n \<noteq> 0
      | Some other \<Rightarrow> True)"

text \<open>The names of the members every plain object inherits from \<^verbatim>\<open>Object.prototype\<close>.\<close>

definition object_prototype_keys :: "string list" where
  "object_prototype_keys =
     [''constructor'', ''hasOwnProperty'', ''isPrototypeOf'', ''propertyIsEnumerable'',
      ''toLocaleString'', ''toString'', ''valueOf'', ''__defineGetter__'', ''__defineSetter__'',
      ''__lookupGetter__'', ''__lookupSetter__'']"

text \<open>A property read on a tunnel object (its own fields only).\<close>

definition tunnel_field :: "tunnel \<Rightarrow> string \<Rightarrow> js_value option" where
  "tunnel_field t k =
     (if k = ''remoteAddr'' then map_option StrVal (remoteAddr t)
      else if k = ''localPort'' then map_option NumVal (localPort t)
      else if k = ''remotePort'' then map_option NumVal (remotePort t)
      else if k = ''remoteSocketPath'' then map_option StrVal (remoteSocketPath t)
      else if k = ''name'' then map_option StrVal (name t)
      else if k = ''process'' then Some (ProcessObj (process t))
      else None)"

text \<open>
  \<^verbatim>\<open>getTunnel(name)\<close>, that is \<^verbatim>\<open>this.activeTunnels[name]\<close>: the key
  \<^verbatim>\<open>__proto__\<close> reads the prototype; any other key reads the own property, then the
  fields of a tunnel object that is the prototype, then the inherited members.
\<close>

definition getTunnel :: "conn \<Rightarrow> string \<Rightarrow> js_value option" where
  "getTunnel s nm =
     (if nm = ''__proto__''
      then (case tunnelsProto s of None \<Rightarrow> Some ObjectPrototype | Some t \<Rightarrow> Some (TunnelObj t))
      else (case activeTunnels s nm of
              Some t \<Rightarrow> Some (TunnelObj t)
            | None \<Rightarrow>
                (case (case tunnelsProto s of None \<Rightarrow> None | Some t \<Rightarrow> tunnel_field t nm) of
                   Some v \<Rightarrow> Some v
                 | None \<Rightarrow>
                     if nm \<in> set object_prototype_keys then Some (ProtoMember nm) else None)))"

text \<open>
  \<^verbatim>\<open>this.activeTunnels[name] = tunnel\<close>: the key \<^verbatim>\<open>__proto__\<close> sets the prototype,
  any other key an own property.
\<close>

definition set_tunnel :: "string \<Rightarrow> tunnel \<Rightarrow> conn \<Rightarrow> conn" where
  "set_tunnel nm tun s =
     (if nm = ''__proto__'' then s\<lparr> tunnelsProto := Some tun \<rparr>
      else s\<lparr> activeTunnels := (activeTunnels s)(nm := Some tun) \<rparr>)"

text \<open>
  \<^verbatim>\<open>delete this.activeTunnels[name]\<close> removes an own property; the key
  \<^verbatim>\<open>__proto__\<close> is never one, and the prototype stays.
\<close>

definition delete_tunnel :: "string \<Rightarrow> conn \<Rightarrow> conn" where
  "delete_tunnel nm s =
     (if nm = ''__proto__'' then s
      else s\<lparr> activeTunnels := (activeTunnels s)(nm := None) \<rparr>)"

text \<open>\<^verbatim>\<open>${tunnelConfig.remotePort || tunnelConfig.remoteSocketPath}\<close>\<close>

definition port_or_socket :: "SSHTunnelConfig \<Rightarrow> string" where
  "port_or_socket tc =
     (if truthy_num (remotePort tc) then tmpl_num (remotePort tc)
      else tmpl_str (remoteSocketPath tc))"

text \<open>\<^verbatim>\<open>tunnelConfig.name || `${remoteAddr}@${remotePort || remoteSocketPath}`\<close>\<close>

definition computed_name :: "SSHTunnelConfig \<Rightarrow> string" where
  "computed_name tc =
     (case name tc of
        Some n \<Rightarrow> if n \<noteq> [] then n else tmpl_str (remoteAddr tc) @ ''@'' @ port_or_socket tc
      | None \<Rightarrow> tmpl_str (remoteAddr tc) @ ''@'' @ port_or_socket tc)"

text \<open>The key \<^verbatim>\<open>tunnelConfig.name!\<close> of the map.\<close>

definition name_key :: "SSHTunnelConfig \<Rightarrow> string" where
  "name_key tc = tmpl_str (name tc)"

definition tunnelArgs :: "SSHTunnelConfig \<Rightarrow> int \<Rightarrow> string list" where
  "tunnelArgs tc lp =
     (case remoteSocketPath tc of
        Some p \<Rightarrow>
          if p \<noteq> [] then [''-N'', ''-L'', num_toString lp @ '':'' @ p]
          else [''-N'', ''-L'', num_toString lp @ '':''
                  @ (if truthy_str (remoteAddr tc) then tmpl_str (remoteAddr tc) else ''localhost'')
                  @ '':'' @ tmpl_num (remotePort tc)]
      | None \<Rightarrow>
          [''-N'', ''-L'', num_toString lp @ '':''
             @ (if truthy_str (remoteAddr tc) then tmpl_str (remoteAddr tc) else ''localhost'')
             @ '':'' @ tmpl_num (remotePort tc)])"

definition make_tunnel :: "SSHTunnelConfig \<Rightarrow> int \<Rightarrow> nat \<Rightarrow> tunnel" where
  "make_tunnel tc lp pid =
     \<lparr> remoteAddr = remoteAddr tc, localPort = Some lp, remotePort = remotePort tc,
       remoteSocketPath = remoteSocketPath tc, name = name tc, process = pid \<rparr>"

text \<open>
  \<^verbatim>\<open>_startTunnelProcess\<close>, up to the point where it returns its promise: build the
  arguments, log, spawn, store the tunnel under its name. The result is the index of the
  new attempt, whose promise is the one returned.
\<close>

definition startTunnelProcess :: "SSHTunnelConfig \<Rightarrow> int \<Rightarrow> conn \<Rightarrow> nat \<times> conn" where
  "startTunnelProcess tc lp s =
     (let sshArgs = buildSSHArgs (config s) @ tunnelArgs tc lp;
          s1 = s\<lparr> logged := logged s @ [''Starting SSH command with arguments '' @ join '','' sshArgs] \<rparr>;
          pid = length (attempts s1);
          tun = make_tunnel tc lp pid;
          s2 = s1\<lparr> attempts := attempts s1 @
                  [\<lparr> a_sshArgs = sshArgs, a_config = tc, a_tunnel = tun, a_stderr = [],
                     a_promise = Pending, a_exitCode = None, a_killed = False \<rparr>] \<rparr>;
          s3 = set_tunnel (name_key tc) tun s2
      in (pid, s3))"

text \<open>
  What \<^verbatim>\<open>addTunnel\<close> returns: the promise already resolved with what
  \<^verbatim>\<open>getTunnel\<close> gave, the promise of a started attempt, or the promise of a
  \<^verbatim>\<open>_createTunnel\<close> call that waits for its port (settled later as the attempt it
  starts settles).
\<close>

datatype ticket = Existing js_value | Started nat | AwaitingPort nat

definition createTunnel :: "SSHTunnelConfig \<Rightarrow> conn \<Rightarrow> ticket \<times> conn" where
  "createTunnel tc s =
     (let lp = (case localPort tc of None \<Rightarrow> 0 | Some p \<Rightarrow> p)
      in if lp = 0
         then (AwaitingPort (length (allocs s)), s\<lparr> allocs := allocs s @ [(tc, None)] \<rparr>)
         else (case startTunnelProcess tc lp s of (k, s') \<Rightarrow> (Started k, s')))"

definition addTunnel :: "SSHTunnelConfig \<Rightarrow> conn \<Rightarrow> ticket \<times> conn" where
  "addTunnel tunnelConfig s =
     (let s1 = s\<lparr> logged := logged s @
                  [''Creating tunnel: name: '' @ tmpl_str (name tunnelConfig) @ '', remoteAddr: ''
                     @ tmpl_str (remoteAddr tunnelConfig) @ ''@'' @ port_or_socket tunnelConfig
                     @ '', localPort '' @ tmpl_num (localPort tunnelConfig)] \<rparr>;
          tc = tunnelConfig\<lparr> name := Some (computed_name tunnelConfig) \<rparr>;
          s2 = conn_emit CHANNEL_TUNNEL STATUS_BEFORECONNECT (Some (ConfigPayload tc)) s1
      in case getTunnel s2 (computed_name tunnelConfig) of
           Some v \<Rightarrow>
             if truthy_value (Some v)
             then (Existing v,
                   conn_emit CHANNEL_TUNNEL STATUS_CONNECT (Some (ConfigPayload tc)) s2)
             else createTunnel tc s2
         | None \<Rightarrow> createTunnel tc s2)"

subsection \<open>The observers of a tunnel process\<close>

text \<open>
  \<^verbatim>\<open>String.prototype.trim\<close>, for the ASCII white space (space, tab, line feed,
  vertical tab, form feed, carriage return).
\<close>

definition is_space :: "char \<Rightarrow> bool" where
  "is_space c = (c \<in> set [CHR '' '', CHR 0x09, CHR 0x0A, CHR 0x0B, CHR 0x0C, CHR 0x0D])"

definition trim :: "string \<Rightarrow> string" where
  "trim s = rev (dropWhile is_space (rev (dropWhile is_space s)))"

definition upd_attempt :: "nat \<Rightarrow> (attempt \<Rightarrow> attempt) \<Rightarrow> conn \<Rightarrow> conn" where
  "upd_attempt k f s = s\<lparr> attempts := (attempts s)[k := f (attempts s ! k)] \<rparr>"

text \<open>
  \<^verbatim>\<open>tunnelProcess.on('error', ...)\<close>. When the process could not be started the
  runtime stores the negative error number in \<^verbatim>\<open>exitCode\<close> before it calls the
  listener, and no \<^verbatim>\<open>'exit'\<close> event follows (\<open>stored = Some errno\<close>); an error of
  another kind leaves \<^verbatim>\<open>exitCode\<close> as it is (\<open>stored = None\<close>).
\<close>

definition on_error :: "nat \<Rightarrow> thrown \<Rightarrow> int option \<Rightarrow> conn \<Rightarrow> conn" where
  "on_error k err stored s =
     (let s0 = (case stored of
                  None \<Rightarrow> s
                | Some errno \<Rightarrow> upd_attempt k (\<lambda>a. a\<lparr> a_exitCode := Some errno \<rparr>) s);
          tc = a_config (attempts s0 ! k);
          s1 = conn_emit CHANNEL_TUNNEL STATUS_DISCONNECT (Some (ConfigErrPayload tc err)) s0;
          s2 = delete_tunnel (name_key tc) s1
      in upd_attempt k (\<lambda>a. a\<lparr> a_promise := settle (a_promise a) (Rejected err) \<rparr>) s2)"

text \<open>
  \<^verbatim>\<open>tunnelProcess.on('exit', ...)\<close>. The runtime stores the exit code in
  \<^verbatim>\<open>exitCode\<close> before it calls the listener; a process ended by a signal exits with
  code \<^verbatim>\<open>null\<close> and its \<^verbatim>\<open>exitCode\<close> stays \<^verbatim>\<open>null\<close>.
\<close>

definition on_exit :: "nat \<Rightarrow> int option \<Rightarrow> conn \<Rightarrow> conn" where
  "on_exit k code s =
     (let s0 = upd_attempt k (\<lambda>a. a\<lparr> a_exitCode := code \<rparr>) s;
          tc = a_config (attempts s0 ! k)
      in if code \<noteq> Some 0 \<and> truthy_value (getTunnel s0 (name_key tc))
         then delete_tunnel (name_key tc)
                (conn_emit CHANNEL_TUNNEL STATUS_DISCONNECT
                   (Some (ConfigErrPayload tc
                      (Error (''Tunnel process exited with code '' @ tmpl_code code)))) s0)
         else s0)"

text \<open>\<^verbatim>\<open>tunnelProcess.stderr?.on('data', ...)\<close>\<close>

definition fatal_stderr :: "string \<Rightarrow> bool" where
  "fatal_stderr e =
     (str_includes e ''Address already in use'' \<or>
      str_includes e ''Permission denied'' \<or>
      str_includes e ''Connection refused'')"

definition on_stderr :: "nat \<Rightarrow> string \<Rightarrow> conn \<Rightarrow> conn" where
  "on_stderr k d s =
     (let s1 = upd_attempt k (\<lambda>a. a\<lparr> a_stderr := a_stderr a @ d \<rparr>) s;
          a1 = attempts s1 ! k
      in if fatal_stderr (a_stderr a1)
         then upd_attempt k
                (\<lambda>a. a\<lparr> a_promise := settle (a_promise a)
                          (Rejected (Error (''Failed to create tunnel: '' @ trim (a_stderr a1)))) \<rparr>)
                (delete_tunnel (name_key (a_config a1))
                   (upd_attempt k (\<lambda>a. a\<lparr> a_killed := True \<rparr>) s1))
         else s1)"

text \<open>The callback of \<^verbatim>\<open>setTimeout(..., 1000)\<close>.\<close>

definition on_timer :: "nat \<Rightarrow> conn \<Rightarrow> conn" where
  "on_timer k s =
     (let a = attempts s ! k
      in if a_exitCode a = None
         then upd_attempt k (\<lambda>a. a\<lparr> a_promise := settle (a_promise a) (Resolved (a_tunnel a)) \<rparr>)
                (conn_emit CHANNEL_TUNNEL STATUS_CONNECT (Some (TunnelPayload (a_tunnel a))) s)
         else if a_stderr a = []
         then upd_attempt k
                (\<lambda>a. a\<lparr> a_promise := settle (a_promise a)
                          (Rejected (Error (''Tunnel process exited with code ''
                             @ tmpl_code (a_exitCode a)))) \<rparr>) s
         else s)"

text \<open>
  The callback of \<^verbatim>\<open>server.close\<close> in \<^verbatim>\<open>_createTunnel\<close>: the port the operating
  system gave is known and the tunnel process is started with it.
\<close>

definition on_port :: "nat \<Rightarrow> int \<Rightarrow> conn \<Rightarrow> conn" where
  "on_port j p s =
     (case allocs s ! j of
        (tc, Some k) \<Rightarrow> s
      | (tc, None) \<Rightarrow>
          (case startTunnelProcess tc p s of
             (k, s') \<Rightarrow> s'\<lparr> allocs := (allocs s')[j := (tc, Some k)] \<rparr>))"

text \<open>
  The event loop runs one callback at a time. An event names the attempt (or the
  pending port request) it belongs to; an event for one that does not exist cannot
  happen and changes nothing.
\<close>

datatype conn_event =
    PortReady nat int
  | TunnelError nat thrown "int option"
  | TunnelExit nat "int option"
  | TunnelStderr nat string
  | GraceTimer nat

definition conn_step :: "conn \<Rightarrow> conn_event \<Rightarrow> conn" where
  "conn_step s ev =
     (case ev of
        PortReady j p \<Rightarrow> if j < length (allocs s) then on_port j p s else s
      | TunnelError k err stored \<Rightarrow>
          if k < length (attempts s) then on_error k err stored s else s
      | TunnelExit k code \<Rightarrow> if k < length (attempts s) then on_exit k code s else s
      | TunnelStderr k d \<Rightarrow> if k < length (attempts s) then on_stderr k d s else s
      | GraceTimer k \<Rightarrow> if k < length (attempts s) then on_timer k s else s)"

definition conn_run :: "conn \<Rightarrow> conn_event list \<Rightarrow> conn" where
  "conn_run s evs = foldl conn_step s evs"

text \<open>The state of the promise a call of \<^verbatim>\<open>addTunnel\<close> returned.\<close>

definition attempt_promise :: "conn \<Rightarrow> nat \<Rightarrow> tunnel promise" where
  "attempt_promise s k = (if k < length (attempts s) then a_promise (attempts s ! k) else Pending)"

definition as_value :: "tunnel promise \<Rightarrow> js_value promise" where
  "as_value p =
     (case p of
        Pending \<Rightarrow> Pending
      | Resolved tun \<Rightarrow> Resolved (TunnelObj tun)
      | Rejected err \<Rightarrow> Rejected err)"

definition ticket_promise :: "conn \<Rightarrow> ticket \<Rightarrow> js_value promise" where
  "ticket_promise s t =
     (case t of
        Existing v \<Rightarrow> Resolved v
      | Started k \<Rightarrow> as_value (attempt_promise s k)
      | AwaitingPort j \<Rightarrow>
          if j < length (allocs s)
          then (case snd (allocs s ! j) of
                  None \<Rightarrow> Pending
                | Some k \<Rightarrow> as_value (attempt_promise s k))
          else Pending)"

section \<open>The authority resolver\<close>

text \<open>
  The class \<^verbatim>\<open>SSHDestination\<close>, the bootstrap routine \<^verbatim>\<open>installCodeServer\<close>,
  \<^verbatim>\<open>findRandomPort\<close> and the editor's configuration store are not among the sources.
  They are parameters of the model: a destination is the record of the three fields
  \<^verbatim>\<open>resolve\<close> reads, and the environment gives the result of each call.
\<close>

record SSHDestination =
  hostname :: string
  dest_port :: "int option"
  user :: "string option"

record ServerResult =
  listeningOn :: "int + string"
  connectionToken :: string

record TunnelInfo =
  ti_localPort :: int
  ti_remotePortOrSocketPath :: "int + string"

record ResolverResult =
  res_host :: string
  res_port :: int
  res_connectionToken :: string

text \<open>
  The environment of one call of \<^verbatim>\<open>resolve\<close>: the decoder, the settings read from
  the configuration section \<^verbatim>\<open>remote.SSH\<close>, the variable \<^verbatim>\<open>USER\<close>, what the probe's
  child process does, the outcome of the bootstrap routine for a platform hint (it is
  taken not to open or close tunnels itself), the outcome of the port allocation, and
  the events of the tunnel's child process up to the moment its promise is read.
\<close>

record resolver_env =
  parseEncoded :: "string option \<Rightarrow> thrown + SSHDestination"
  cfg_remotePlatform :: "string \<Rightarrow> string option"
  cfg_connectTimeout :: int
  env_USER :: "string option"
  probe_events :: "proc_event list"
  installCodeServer :: "string option \<Rightarrow> thrown + ServerResult"
  findRandomPort :: "thrown + int"
  tunnel_events :: "conn_event list"

datatype log_entry = LogInfo string | LogError string thrown

text \<open>
  The resolver object. \<open>install_calls\<close> records the platform hint of every call of
  the bootstrap routine.
\<close>

record resolver =
  sshConnection :: "conn option"
  tunnels :: "TunnelInfo list"
  r_logged :: "log_entry list"
  install_calls :: "string option list"

text \<open>A call either throws before it returns, or returns a promise (its final state).\<close>

datatype 'a outcome = Throws thrown | Returns "'a promise"

definition REMOTE_SSH_AUTHORITY :: string where
  "REMOTE_SSH_AUTHORITY = ''ssh-remote''"

text \<open>\<^verbatim>\<open>String.prototype.split\<close> with a one-character separator.\<close>

fun split_on :: "char \<Rightarrow> string \<Rightarrow> string list" where
  "split_on sep [] = [[]]"
| "split_on sep (c # cs) =
     (if c = sep then [] # split_on sep cs
      else (case split_on sep cs of [] \<Rightarrow> [[c]] | p # ps \<Rightarrow> (c # p) # ps))"

text \<open>\<^verbatim>\<open>sshDest.user || process.env["USER"] || ""\<close>\<close>

definition resolver_username :: "resolver_env \<Rightarrow> SSHDestination \<Rightarrow> string" where
  "resolver_username env d =
     (if truthy_str (user d) then tmpl_str (user d)
      else if truthy_str (env_USER env) then tmpl_str (env_USER env)
      else [])"

text \<open>The object literal passed to \<^verbatim>\<open>new SSHConnection\<close>: four keys, each present.\<close>

definition resolver_options :: "resolver_env \<Rightarrow> SSHDestination \<Rightarrow> SSHConnectOptions" where
  "resolver_options env d =
     \<lparr> o_host = hostname d,
       o_port = Present (dest_port d),
       o_username = Present (Some (resolver_username env d)),
       o_identity = Absent,
       o_connectTimeout = Present (Some (cfg_connectTimeout env)),
       o_sshOptions = Absent \<rparr>"

text \<open>The classification of the probe's standard output; no match leaves the hint as it was.\<close>

definition classify :: "string \<Rightarrow> string option \<Rightarrow> string option" where
  "classify out platform =
     (if str_includes out ''Linux'' then Some ''linux''
      else if str_includes out ''Darwin'' then Some ''macos''
      else if str_includes out ''Windows'' \<or> str_includes out ''MINGW'' \<or> str_includes out ''MSYS''
      then Some ''windows''
      else platform)"

text \<open>
  Platform detection: the override map first, the probe only when it gives nothing.
  The result is the promise of the hint together with the resolver, which holds the
  log.
\<close>

definition detect_platform :: "resolver_env \<Rightarrow> conn \<Rightarrow> SSHDestination \<Rightarrow> resolver
    \<Rightarrow> string option promise \<times> resolver" where
  "detect_platform env c d r =
     (let platform = cfg_remotePlatform env (hostname d)
      in if truthy_str platform then (Resolved platform, r)
         else (case x_promise (exec (config c) ''uname -s'' None False (probe_events env)) of
                 Pending \<Rightarrow> (Pending, r)
               | Resolved result \<Rightarrow> (Resolved (classify (fst result) platform), r)
               | Rejected err \<Rightarrow>
                   (Resolved platform,
                    r\<lparr> r_logged := r_logged r @ [LogError ''Failed to detect platform: '' err] \<rparr>)))"

text \<open>The tunnel specification for a server on a port, or on a socket.\<close>

definition server_tunnelConfig :: "ServerResult \<Rightarrow> int \<Rightarrow> SSHTunnelConfig" where
  "server_tunnelConfig sr lp =
     (case listeningOn sr of
        Inl n \<Rightarrow> \<lparr> remoteAddr = Some ''localhost'', localPort = Some lp, remotePort = Some n,
                   remoteSocketPath = None, name = None \<rparr>
      | Inr path \<Rightarrow> \<lparr> remoteAddr = None, localPort = Some lp, remotePort = None,
                      remoteSocketPath = Some path, name = None \<rparr>)"

text \<open>\<^verbatim>\<open>await this.sshConnection.addTunnel({...})\<close>\<close>

definition open_tunnel :: "resolver_env \<Rightarrow> conn \<Rightarrow> ServerResult \<Rightarrow> int \<Rightarrow> js_value promise \<times> conn" where
  "open_tunnel env c sr lp =
     (case addTunnel (server_tunnelConfig sr lp) c of
        (t, c1) \<Rightarrow>
          (let c2 = conn_run c1 (tunnel_events env) in (ticket_promise c2 t, c2)))"

text \<open>The \<^verbatim>\<open>catch\<close> block of the task: log, and throw the wrapped message.\<close>

definition thrown_message :: "thrown \<Rightarrow> string" where
  "thrown_message err =
     (case err of Error m \<Rightarrow> m | RemoteAuthorityResolverError m \<Rightarrow> m | NonError str \<Rightarrow> str)"

definition task_catch :: "thrown \<Rightarrow> resolver \<Rightarrow> ResolverResult promise \<times> resolver" where
  "task_catch err r =
     (Rejected (RemoteAuthorityResolverError (thrown_message err)),
      r\<lparr> r_logged := r_logged r @ [LogError ''Failed to resolve SSH authority: '' err] \<rparr>)"

text \<open>The task run under the progress notification (the \<^verbatim>\<open>try\<close> block).\<close>

definition resolve_task :: "resolver_env \<Rightarrow> SSHDestination \<Rightarrow> resolver
    \<Rightarrow> ResolverResult promise \<times> resolver" where
  "resolve_task env d r =
     (let c0 = new_SSHConnection (resolver_options env d);
          r1 = r\<lparr> sshConnection := Some c0 \<rparr>
      in case detect_platform env c0 d r1 of
           (Pending, r2) \<Rightarrow> (Pending, r2)
         | (Rejected err, r2) \<Rightarrow> task_catch err r2
         | (Resolved platform, r2) \<Rightarrow>
             (let r3 = r2\<lparr> install_calls := install_calls r2 @ [platform] \<rparr>
              in case installCodeServer env platform of
                   Inl err \<Rightarrow> task_catch err r3
                 | Inr serverResult \<Rightarrow>
                     (case findRandomPort env of
                        Inl err \<Rightarrow> task_catch err r3
                      | Inr lp \<Rightarrow>
                          (case open_tunnel env c0 serverResult lp of
                             (Pending, c1) \<Rightarrow> (Pending, r3\<lparr> sshConnection := Some c1 \<rparr>)
                           | (Rejected err, c1) \<Rightarrow> task_catch err (r3\<lparr> sshConnection := Some c1 \<rparr>)
                           | (Resolved t, c1) \<Rightarrow>
                               (Resolved \<lparr> res_host = ''localhost'', res_port = lp,
                                           res_connectionToken = connectionToken serverResult \<rparr>,
                                r3\<lparr> sshConnection := Some c1,
                                    tunnels := tunnels r3 @
                                      [\<lparr> ti_localPort = lp,
                                         ti_remotePortOrSocketPath = listeningOn serverResult \<rparr>] \<rparr>)))))"

text \<open>
  \<^verbatim>\<open>resolve(authority, context)\<close>; \<open>attempt\<close> is \<^verbatim>\<open>context.resolveAttempt\<close>.
  \<open>authority_parts\<close> is \<^verbatim>\<open>const [type, dest] = authority.split('+')\<close>. The check
  of the type tag and the decoding of the destination stand before the task, outside its
  \<^verbatim>\<open>try\<close> block.
\<close>

definition authority_parts :: "string \<Rightarrow> string option \<times> string option" where
  "authority_parts authority =
     (case split_on CHR ''+'' authority of
        [] \<Rightarrow> (None, None)
      | [t] \<Rightarrow> (Some t, None)
      | t # d # rest \<Rightarrow> (Some t, Some d))"

definition resolve :: "resolver_env \<Rightarrow> string \<Rightarrow> int \<Rightarrow> resolver \<Rightarrow> ResolverResult outcome \<times> resolver" where
  "resolve env authority attempt r =
     (case authority_parts authority of
        (type, dest) \<Rightarrow>
          if type \<noteq> Some REMOTE_SSH_AUTHORITY
          then (Throws (Error (''Invalid authority type for SSH resolver: '' @ tmpl_str type)), r)
          else
            (let r1 = r\<lparr> r_logged := r_logged r @
                        [LogInfo (''Resolving ssh remote authority '' @ [CHR 0x27] @ authority
                           @ [CHR 0x27] @ '' (attempt #'' @ num_toString attempt @ '')'')] \<rparr>
             in case parseEncoded env dest of
                  Inl err \<Rightarrow> (Throws err, r1)
                | Inr sshDest \<Rightarrow>
                    (case resolve_task env sshDest r1 of (p, r2) \<Rightarrow> (Returns p, r2))))"

definition new_resolver :: resolver where
  "new_resolver = \<lparr> sshConnection = None, tunnels = [], r_logged = [], install_calls = [] \<rparr>"

section \<open>Properties of argument building\<close>

declare digits.simps [simp del]

lemma push_identity_eq:
  "push_identity c xs = xs @ (if truthy_str (identity c) then [''-i'', tmpl_str (identity c)] else [])"
  by (simp add: push_identity_def truthy_str_def tmpl_str_def split: option.splits)

lemma push_port_eq:
  "push_port c xs = xs @ (if truthy_num (port c) \<and> port c \<noteq> Some 22 then [''-p'', tmpl_num (port c)] else [])"
  by (simp add: push_port_def truthy_num_def tmpl_num_def split: option.splits)

lemma push_sshOptions_eq:
  "push_sshOptions c xs = xs @ (case sshOptions c of None \<Rightarrow> [] | Some os \<Rightarrow> os)"
  by (simp add: push_sshOptions_def split: option.splits)

lemmas build_defs = buildSSHArgs_def push_identity_def push_port_def push_sshOptions_def
  destination_def truthy_str_def truthy_num_def tmpl_str_def tmpl_num_def Let_def

lemma destination_eq:
  "destination c = (if truthy_str (username c) then tmpl_str (username c) @ ''@'' @ host c else host c)"
  by (simp add: destination_def truthy_str_def tmpl_str_def split: option.splits)

lemma buildSSHArgs_eq:
  "buildSSHArgs c =
     [''-o'', ''ConnectTimeout='' @ tmpl_num (connectTimeout c),
      ''-o'', ''ServerAliveInterval=60'',
      ''-o'', ''ServerAliveCountMax=3'',
      ''-o'', ''EnableEscapeCommandline=yes'',
      ''-T'']
     @ (if truthy_str (identity c) then [''-i'', tmpl_str (identity c)] else [])
     @ (if truthy_num (port c) \<and> port c \<noteq> Some 22 then [''-p'', tmpl_num (port c)] else [])
     @ (case sshOptions c of None \<Rightarrow> [] | Some os \<Rightarrow> os)
     @ [if truthy_str (username c) then tmpl_str (username c) @ ''@'' @ host c else host c]"
  unfolding buildSSHArgs_def Let_def push_identity_eq push_port_eq push_sshOptions_eq destination_eq
  by (simp only: append_assoc)

lemma digit_char_mem: "d < 10 \<Longrightarrow> ''0123456789'' ! d \<in> set ''0123456789''"
  by (rule nth_mem) simp

lemma digits_set: "set (digits n) \<subseteq> set ''0123456789''"
proof (induction n rule: digits.induct)
  case (1 n)
  show ?case
  proof (cases "n < 10")
    case True
    then show ?thesis
      using digit_char_mem[of n] by (subst digits.simps) simp
  next
    case False
    have "n mod 10 < 10" by simp
    then have "''0123456789'' ! (n mod 10) \<in> set ''0123456789''"
      by (rule digit_char_mem)
    with False "1.IH" show ?thesis
      by (subst digits.simps) simp
  qed
qed

lemma num_toString_not_flag: "num_toString p \<noteq> ''-p''"
proof
  assume h: "num_toString p = ''-p''"
  show False
  proof (cases "p < 0")
    case True
    with h have "digits (nat (- p)) = ''p''" by (simp add: num_toString_def)
    then have "CHR ''p'' \<in> set (digits (nat (- p)))" by simp
    with digits_set show False by fastforce
  next
    case False
    with h have "digits (nat p) = ''-p''" by (simp add: num_toString_def)
    then have "CHR ''p'' \<in> set (digits (nat p))" by simp
    with digits_set show False by fastforce
  qed
qed

lemma tmpl_num_not_flag: "tmpl_num v \<noteq> ''-p''"
  using num_toString_not_flag by (cases v) (simp_all add: tmpl_num_def)

lemma count_flag:
  assumes "''-p'' \<notin> set (case sshOptions c of None \<Rightarrow> [] | Some os \<Rightarrow> os)"
    and "identity c \<noteq> Some ''-p''" and "destination c \<noteq> ''-p''"
  shows "count_list (buildSSHArgs c) ''-p'' = (if truthy_num (port c) \<and> port c \<noteq> Some 22 then 1 else 0)"
proof -
  have i: "count_list (if truthy_str (identity c) then [''-i'', tmpl_str (identity c)] else []) ''-p'' = 0"
    using assms(2) by (cases "identity c") (simp_all add: truthy_str_def tmpl_str_def)
  have p: "count_list (if truthy_num (port c) \<and> port c \<noteq> Some 22 then [''-p'', tmpl_num (port c)] else []) ''-p''
     = (if truthy_num (port c) \<and> port c \<noteq> Some 22 then 1 else 0)"
    using tmpl_num_not_flag by simp
  have e: "count_list (case sshOptions c of None \<Rightarrow> [] | Some os \<Rightarrow> os) ''-p'' = 0"
    using assms(1) by (simp add: count_list_0_iff)
  have d: "count_list [destination c] ''-p'' = 0"
    using assms(3) by simp
  have f: "count_list [''-o'', ''ConnectTimeout='' @ tmpl_num (connectTimeout c),
      ''-o'', ''ServerAliveInterval=60'',
      ''-o'', ''ServerAliveCountMax=3'',
      ''-o'', ''EnableEscapeCommandline=yes'',
      ''-T''] ''-p'' = 0"
    by simp
  show ?thesis
    unfolding buildSSHArgs_eq destination_eq[symmetric] count_list_append i p e d f by simp
qed

text \<open>
  Claim C1, as the code has it. The argument vector is a function of the configuration
  alone. It starts with the connection time-out, \<open>ServerAliveInterval=60\<close>,
  \<open>ServerAliveCountMax=3\<close>, \<open>EnableEscapeCommandline=yes\<close> and \<open>-T\<close> (there is no
  batch-mode option); then \<open>-i <identity>\<close> exactly when the identity is a non-empty
  string; then \<open>-p <port>\<close> exactly when the port is defined, not 0 and not 22; then
  the extra options in order; last the destination, \<open>user@host\<close> when the user name is
  a non-empty string and the bare host otherwise. When no other part of the
  configuration is the text \<open>-p\<close>, the flag occurs once in the first case of the port and
  not at all otherwise.
\<close>

theorem buildSSHArgs_contract:
  "buildSSHArgs c =
     [''-o'', ''ConnectTimeout='' @ tmpl_num (connectTimeout c),
      ''-o'', ''ServerAliveInterval=60'',
      ''-o'', ''ServerAliveCountMax=3'',
      ''-o'', ''EnableEscapeCommandline=yes'',
      ''-T'']
     @ (if truthy_str (identity c) then [''-i'', tmpl_str (identity c)] else [])
     @ (if truthy_num (port c) \<and> port c \<noteq> Some 22 then [''-p'', tmpl_num (port c)] else [])
     @ (case sshOptions c of None \<Rightarrow> [] | Some os \<Rightarrow> os)
     @ [if truthy_str (username c) then tmpl_str (username c) @ ''@'' @ host c else host c]
   \<and> (''-p'' \<notin> set (case sshOptions c of None \<Rightarrow> [] | Some os \<Rightarrow> os)
        \<and> identity c \<noteq> Some ''-p'' \<and> destination c \<noteq> ''-p''
      \<longrightarrow> count_list (buildSSHArgs c) ''-p''
            = (if truthy_num (port c) \<and> port c \<noteq> Some 22 then 1 else 0))"
proof (intro conjI impI)
  show "buildSSHArgs c =
     [''-o'', ''ConnectTimeout='' @ tmpl_num (connectTimeout c),
      ''-o'', ''ServerAliveInterval=60'',
      ''-o'', ''ServerAliveCountMax=3'',
      ''-o'', ''EnableEscapeCommandline=yes'',
      ''-T'']
     @ (if truthy_str (identity c) then [''-i'', tmpl_str (identity c)] else [])
     @ (if truthy_num (port c) \<and> port c \<noteq> Some 22 then [''-p'', tmpl_num (port c)] else [])
     @ (case sshOptions c of None \<Rightarrow> [] | Some os \<Rightarrow> os)
     @ [if truthy_str (username c) then tmpl_str (username c) @ ''@'' @ host c else host c]"
    by (rule buildSSHArgs_eq)
next
  assume "''-p'' \<notin> set (case sshOptions c of None \<Rightarrow> [] | Some os \<Rightarrow> os)
        \<and> identity c \<noteq> Some ''-p'' \<and> destination c \<noteq> ''-p''"
  then show "count_list (buildSSHArgs c) ''-p''
            = (if truthy_num (port c) \<and> port c \<noteq> Some 22 then 1 else 0)"
    by (simp add: count_flag)
qed

theorem buildSSHArgs_contract_witness:
  "buildSSHArgs \<lparr> host = ''example.com'', port = Some 2222, username = Some ''alice'',
       identity = Some ''id_ed25519'', connectTimeout = Some 60, sshOptions = Some [''-v''] \<rparr>
     = [''-o'', ''ConnectTimeout=60'', ''-o'', ''ServerAliveInterval=60'',
        ''-o'', ''ServerAliveCountMax=3'', ''-o'', ''EnableEscapeCommandline=yes'', ''-T'',
        ''-i'', ''id_ed25519'', ''-p'', ''2222'', ''-v'', ''alice@example.com'']
   \<and> count_list (buildSSHArgs \<lparr> host = ''example.com'', port = Some 2222, username = Some ''alice'',
       identity = Some ''id_ed25519'', connectTimeout = Some 60, sshOptions = Some [''-v''] \<rparr>) ''-p'' = 1"
  using buildSSHArgs_contract [of "\<lparr> host = ''example.com'', port = Some 2222, username = Some ''alice'',
       identity = Some ''id_ed25519'', connectTimeout = Some 60, sshOptions = Some [''-v''] \<rparr>"]
  by (simp add: truthy_str_def truthy_num_def tmpl_str_def tmpl_num_def destination_def
      num_toString_def digits.simps)

text \<open>
  Claim C1 as stated fails: for a configuration whose port is 0 (so not 22) the vector
  holds neither a batch-mode option nor a \<open>-p\<close> flag.
\<close>

theorem buildSSHArgs_batch_mode_counterexample:
  "port \<lparr> host = ''example.com'', port = Some 0, username = Some ''alice'',
       identity = None, connectTimeout = Some 60, sshOptions = None \<rparr> \<noteq> Some 22
   \<and> buildSSHArgs \<lparr> host = ''example.com'', port = Some 0, username = Some ''alice'',
       identity = None, connectTimeout = Some 60, sshOptions = None \<rparr>
     = [''-o'', ''ConnectTimeout=60'', ''-o'', ''ServerAliveInterval=60'',
        ''-o'', ''ServerAliveCountMax=3'', ''-o'', ''EnableEscapeCommandline=yes'', ''-T'',
        ''alice@example.com'']
   \<and> ''BatchMode=yes'' \<notin> set (buildSSHArgs \<lparr> host = ''example.com'', port = Some 0,
       username = Some ''alice'', identity = None, connectTimeout = Some 60, sshOptions = None \<rparr>)
   \<and> ''-p'' \<notin> set (buildSSHArgs \<lparr> host = ''example.com'', port = Some 0,
       username = Some ''alice'', identity = None, connectTimeout = Some 60, sshOptions = None \<rparr>)"
  by (simp add: build_defs num_toString_def digits.simps)

text \<open>
  Claim C10. The constructor's merge takes a default (port 22, time-out 60) only for a
  key that is absent from the options object; a key present with the value
  \<^verbatim>\<open>undefined\<close> keeps \<^verbatim>\<open>undefined\<close>. The resolver always passes the key
  \<^verbatim>\<open>port\<close>, so for a destination without a port the merged port is \<^verbatim>\<open>undefined\<close>, not
  22, and the argument vector has no \<open>-p\<close> flag. Argument building leaves the flag out
  for every falsy port (\<^verbatim>\<open>undefined\<close> or 0) as it does for 22.
\<close>

theorem constructor_merge_and_port_flag:
  "port (constructor_config options)
     = (case o_port options of Absent \<Rightarrow> Some 22 | Present v \<Rightarrow> v)
   \<and> connectTimeout (constructor_config options)
     = (case o_connectTimeout options of Absent \<Rightarrow> Some 60 | Present v \<Rightarrow> v)
   \<and> port (config (new_SSHConnection (resolver_options env d))) = dest_port d
   \<and> (dest_port d = None \<longrightarrow>
        port (config (new_SSHConnection (resolver_options env d))) \<noteq> Some 22
        \<and> buildSSHArgs (config (new_SSHConnection (resolver_options env d)))
          = [''-o'', ''ConnectTimeout='' @ num_toString (cfg_connectTimeout env),
             ''-o'', ''ServerAliveInterval=60'',
             ''-o'', ''ServerAliveCountMax=3'',
             ''-o'', ''EnableEscapeCommandline=yes'',
             ''-T'',
             if resolver_username env d \<noteq> [] then resolver_username env d @ ''@'' @ hostname d
             else hostname d])
   \<and> (port c = None \<or> port c = Some 0 \<or> port c = Some 22 \<longrightarrow>
        buildSSHArgs c =
          [''-o'', ''ConnectTimeout='' @ tmpl_num (connectTimeout c),
           ''-o'', ''ServerAliveInterval=60'',
           ''-o'', ''ServerAliveCountMax=3'',
           ''-o'', ''EnableEscapeCommandline=yes'',
           ''-T'']
          @ (if truthy_str (identity c) then [''-i'', tmpl_str (identity c)] else [])
          @ (case sshOptions c of None \<Rightarrow> [] | Some os \<Rightarrow> os)
          @ [destination c])"
proof -
  have m: "port (constructor_config options)
       = (case o_port options of Absent \<Rightarrow> Some 22 | Present v \<Rightarrow> v)
     \<and> connectTimeout (constructor_config options)
       = (case o_connectTimeout options of Absent \<Rightarrow> Some 60 | Present v \<Rightarrow> v)"
    by (simp add: constructor_config_def assign_prop_def defaultOptions_port_def
        defaultOptions_connectTimeout_def split: property.splits)
  have r: "config (new_SSHConnection (resolver_options env d))
       = \<lparr> host = hostname d, port = dest_port d, username = Some (resolver_username env d),
           identity = None, connectTimeout = Some (cfg_connectTimeout env), sshOptions = None \<rparr>"
    by (simp add: new_SSHConnection_def constructor_config_def resolver_options_def assign_prop_def)
  have b: "dest_port d = None \<Longrightarrow>
        buildSSHArgs (config (new_SSHConnection (resolver_options env d)))
          = [''-o'', ''ConnectTimeout='' @ num_toString (cfg_connectTimeout env),
             ''-o'', ''ServerAliveInterval=60'',
             ''-o'', ''ServerAliveCountMax=3'',
             ''-o'', ''EnableEscapeCommandline=yes'',
             ''-T'',
             if resolver_username env d \<noteq> [] then resolver_username env d @ ''@'' @ hostname d
             else hostname d]"
    unfolding r buildSSHArgs_eq
    by (simp add: truthy_str_def truthy_num_def tmpl_str_def tmpl_num_def)
  have f: "port c = None \<or> port c = Some 0 \<or> port c = Some 22 \<Longrightarrow>
        buildSSHArgs c =
          [''-o'', ''ConnectTimeout='' @ tmpl_num (connectTimeout c),
           ''-o'', ''ServerAliveInterval=60'',
           ''-o'', ''ServerAliveCountMax=3'',
           ''-o'', ''EnableEscapeCommandline=yes'',
           ''-T'']
          @ (if truthy_str (identity c) then [''-i'', tmpl_str (identity c)] else [])
          @ (case sshOptions c of None \<Rightarrow> [] | Some os \<Rightarrow> os)
          @ [destination c]"
    unfolding buildSSHArgs_eq destination_eq[symmetric]
    by (auto simp add: truthy_num_def)
  from m r b f show ?thesis by simp
qed


theorem constructor_merge_and_port_flag_witness:
  "port (constructor_config \<lparr> o_host = ''example.com'', o_port = Present None,
       o_username = Present (Some ''alice''), o_identity = Absent,
       o_connectTimeout = Present (Some 30), o_sshOptions = Absent \<rparr>) = None
   \<and> port (config (new_SSHConnection (resolver_options
       \<lparr> parseEncoded = (\<lambda>x. Inl (Error [])), cfg_remotePlatform = (\<lambda>h. None),
         cfg_connectTimeout = 30, env_USER = Some ''bob'', probe_events = [],
         installCodeServer = (\<lambda>p. Inl (Error [])), findRandomPort = Inr 40000,
         tunnel_events = [] \<rparr>
       \<lparr> hostname = ''example.com'', dest_port = None, user = Some ''alice'' \<rparr>))) = None
   \<and> buildSSHArgs (config (new_SSHConnection (resolver_options
       \<lparr> parseEncoded = (\<lambda>x. Inl (Error [])), cfg_remotePlatform = (\<lambda>h. None),
         cfg_connectTimeout = 30, env_USER = Some ''bob'', probe_events = [],
         installCodeServer = (\<lambda>p. Inl (Error [])), findRandomPort = Inr 40000,
         tunnel_events = [] \<rparr>
       \<lparr> hostname = ''example.com'', dest_port = None, user = Some ''alice'' \<rparr>)))
     = [''-o'', ''ConnectTimeout=30'', ''-o'', ''ServerAliveInterval=60'',
        ''-o'', ''ServerAliveCountMax=3'', ''-o'', ''EnableEscapeCommandline=yes'', ''-T'',
        ''alice@example.com'']
   \<and> buildSSHArgs \<lparr> host = ''example.com'', port = Some 0, username = None,
       identity = Some ''id_ed25519'', connectTimeout = Some 60, sshOptions = Some [''-v''] \<rparr>
     = [''-o'', ''ConnectTimeout=60'', ''-o'', ''ServerAliveInterval=60'',
        ''-o'', ''ServerAliveCountMax=3'', ''-o'', ''EnableEscapeCommandline=yes'', ''-T'',
        ''-i'', ''id_ed25519'', ''-v'', ''example.com'']"
  using constructor_merge_and_port_flag [of
      "\<lparr> o_host = ''example.com'', o_port = Present None,
         o_username = Present (Some ''alice''), o_identity = Absent,
         o_connectTimeout = Present (Some 30), o_sshOptions = Absent \<rparr>"
      "\<lparr> parseEncoded = (\<lambda>x. Inl (Error [])), cfg_remotePlatform = (\<lambda>h. None),
         cfg_connectTimeout = 30, env_USER = Some ''bob'', probe_events = [],
         installCodeServer = (\<lambda>p. Inl (Error [])), findRandomPort = Inr 40000,
         tunnel_events = [] \<rparr>"
      "\<lparr> hostname = ''example.com'', dest_port = None, user = Some ''alice'' \<rparr>"
      "\<lparr> host = ''example.com'', port = Some 0, username = None,
         identity = Some ''id_ed25519'', connectTimeout = Some 60, sshOptions = Some [''-v''] \<rparr>"]
  by (simp add: resolver_username_def truthy_str_def tmpl_str_def tmpl_num_def destination_def
      num_toString_def digits.simps)

section \<open>Properties of command execution\<close>

lemma out_of_append: "out_of (xs @ ys) = out_of xs @ out_of ys"
  by (induction xs rule: out_of.induct) simp_all

lemma err_of_append: "err_of (xs @ ys) = err_of xs @ err_of ys"
  by (induction xs rule: err_of.induct) simp_all

lemma exec_data:
  "list_all is_data ds \<Longrightarrow>
   foldl (exec_on a ign) s ds
     = s\<lparr> x_stdout := x_stdout s @ out_of ds, x_stderr := x_stderr s @ err_of ds \<rparr>"
proof (induction ds arbitrary: s)
  case Nil
  then show ?case by simp
next
  case (Cons ev ds)
  then show ?case by (cases ev) (simp_all add: exec_on_def)
qed

lemma exec_settled:
  "x_promise s \<noteq> Pending \<Longrightarrow> x_promise (foldl (exec_on a ign) s evs) = x_promise s"
proof (induction evs arbitrary: s)
  case Nil
  then show ?case by simp
next
  case (Cons ev evs)
  have "x_promise (exec_on a ign s ev) = x_promise s"
    using Cons.prems by (cases ev; cases "x_promise s") (simp_all add: exec_on_def settle_def)
  with Cons show ?case by simp
qed

lemma exec_after_data:
  assumes "list_all is_data ds"
  shows "x_promise (exec c cmd params ign (ds @ [Close code] @ later))
           = (if code = Some 0 \<or> ign then Resolved (out_of ds, err_of ds)
              else Rejected (Error (''Command '' @ join '','' (exec_sshArgs c cmd params)
                     @ '' failed with exit code '' @ tmpl_code code @ '': ''
                     @ out_of ds @ '' '' @ err_of ds)))
       \<and> x_promise (exec c cmd params ign (ds @ [ProcError err] @ later)) = Rejected err"
proof -
  let ?a = "exec_sshArgs c cmd params"
  let ?s = "foldl (exec_on ?a ign) exec_init ds"
  have s: "?s = \<lparr> x_stdout = out_of ds, x_stderr = err_of ds, x_promise = Pending \<rparr>"
    using exec_data[OF assms, of ?a ign exec_init] by (simp add: exec_init_def)
  have c: "x_promise (exec_on ?a ign ?s (Close code))
           = (if code = Some 0 \<or> ign then Resolved (out_of ds, err_of ds)
              else Rejected (Error (''Command '' @ join '','' ?a
                     @ '' failed with exit code '' @ tmpl_code code @ '': ''
                     @ out_of ds @ '' '' @ err_of ds)))"
    unfolding s by (simp add: exec_on_def settle_def)
  have e: "x_promise (exec_on ?a ign ?s (ProcError err)) = Rejected err"
    unfolding s by (simp add: exec_on_def settle_def)
  have c': "x_promise (foldl (exec_on ?a ign) (exec_on ?a ign ?s (Close code)) later)
      = x_promise (exec_on ?a ign ?s (Close code))"
    by (rule exec_settled) (simp add: c)
  have e': "x_promise (foldl (exec_on ?a ign) (exec_on ?a ign ?s (ProcError err)) later)
      = x_promise (exec_on ?a ign ?s (ProcError err))"
    by (rule exec_settled) (simp add: e)
  show ?thesis
    unfolding exec_def foldl_append foldl_Cons foldl_Nil c' e' c e by simp
qed

text \<open>
  Claim C6. After any chunks of output, when the child process closes, \<^verbatim>\<open>exec\<close>
  resolves with the accumulated \<open>(stdout, stderr)\<close> if the exit code is 0 or the caller
  passed \<^verbatim>\<open>ignoreExitCode\<close>, and rejects with an error whose message carries the exit
  code and the output for every other exit code; when the process cannot be started
  (the \<^verbatim>\<open>'error'\<close> event) it rejects with that error. Later events do not change the
  settled promise.
\<close>

theorem exec_exit_policy:
  assumes "list_all is_data ds"
  shows "x_promise (exec c cmd params ign (ds @ [Close code] @ later))
           = (if code = Some 0 \<or> ign then Resolved (out_of ds, err_of ds)
              else Rejected (Error (''Command '' @ join '','' (exec_sshArgs c cmd params)
                     @ '' failed with exit code '' @ tmpl_code code @ '': ''
                     @ out_of ds @ '' '' @ err_of ds)))
       \<and> x_promise (exec c cmd params ign (ds @ [ProcError err] @ later)) = Rejected err"
  using assms by (rule exec_after_data)

theorem exec_exit_policy_witness:
  "x_promise (exec \<lparr> host = ''example.com'', port = Some 22, username = Some ''alice'',
        identity = None, connectTimeout = Some 60, sshOptions = None \<rparr> ''false'' None False
        ([StdoutData ''out'', StderrData ''err''] @ [Close (Some 1)] @ []))
     = Rejected (Error (''Command -o,ConnectTimeout=60,-o,ServerAliveInterval=60,-o,ServerAliveCountMax=3,-o,EnableEscapeCommandline=yes,-T,alice@example.com,false failed with exit code 1: out err''))
   \<and> x_promise (exec \<lparr> host = ''example.com'', port = Some 22, username = Some ''alice'',
        identity = None, connectTimeout = Some 60, sshOptions = None \<rparr> ''false'' None False
        ([StdoutData ''out'', StderrData ''err''] @ [ProcError (Error ''spawn ssh ENOENT'')] @ []))
     = Rejected (Error ''spawn ssh ENOENT'')"
  using exec_exit_policy [of "[StdoutData ''out'', StderrData ''err'']"
      "\<lparr> host = ''example.com'', port = Some 22, username = Some ''alice'',
        identity = None, connectTimeout = Some 60, sshOptions = None \<rparr>" "''false''" None False
      "Some 1" "[]" "Error ''spawn ssh ENOENT''"]
  by (simp add: exec_sshArgs_def command_line_def buildSSHArgs_eq truthy_str_def truthy_num_def
      tmpl_str_def tmpl_num_def tmpl_code_def num_toString_def digits.simps)

lemma quiet_data: "quiet tester out err ds \<Longrightarrow> list_all is_data ds"
  by (induction tester out err ds rule: quiet.induct) simp_all

lemma wait_quiet:
  "quiet tester (w_stdout s) (w_stderr s) ds \<Longrightarrow> \<not> w_resolved s \<Longrightarrow>
   foldl (wait_on tester ign) s ds
     = s\<lparr> w_stdout := w_stdout s @ out_of ds, w_stderr := w_stderr s @ err_of ds \<rparr>"
proof (induction ds arbitrary: s)
  case Nil
  then show ?case by simp
next
  case (Cons ev ds)
  show ?case
  proof (cases ev)
    case (StdoutData d)
    with Cons.prems have q: "\<not> tester (w_stdout s @ d) (w_stderr s)"
      "quiet tester (w_stdout s @ d) (w_stderr s) ds" by simp_all
    have st: "wait_on tester ign s (StdoutData d) = s\<lparr> w_stdout := w_stdout s @ d \<rparr>"
      using q(1) Cons.prems(2) by (simp add: wait_on_def wait_test_def)
    show ?thesis
      using Cons.IH[of "s\<lparr> w_stdout := w_stdout s @ d \<rparr>"] q(2) Cons.prems(2)
      by (simp add: st StdoutData)
  next
    case (StderrData d)
    with Cons.prems have q: "\<not> tester (w_stdout s) (w_stderr s @ d)"
      "quiet tester (w_stdout s) (w_stderr s @ d) ds" by simp_all
    have st: "wait_on tester ign s (StderrData d) = s\<lparr> w_stderr := w_stderr s @ d \<rparr>"
      using q(1) Cons.prems(2) by (simp add: wait_on_def wait_test_def)
    show ?thesis
      using Cons.IH[of "s\<lparr> w_stderr := w_stderr s @ d \<rparr>"] q(2) Cons.prems(2)
      by (simp add: st StderrData)
  next
    case (Close code)
    with Cons.prems show ?thesis by simp
  next
    case (ProcError err)
    with Cons.prems show ?thesis by simp
  qed
qed

lemma wait_resolved_step:
  "w_resolved s \<Longrightarrow>
   w_resolved (wait_on tester ign s ev) \<and> w_promise (wait_on tester ign s ev) = w_promise s
   \<and> w_calls (wait_on tester ign s ev) = w_calls s"
  by (cases ev) (simp_all add: wait_on_def wait_test_def)

lemma wait_resolved_stays:
  "w_resolved s \<Longrightarrow>
   w_promise (foldl (wait_on tester ign) s evs) = w_promise s
   \<and> w_calls (foldl (wait_on tester ign) s evs) = w_calls s"
proof (induction evs arbitrary: s)
  case Nil
  then show ?case by simp
next
  case (Cons ev evs)
  from wait_resolved_step[OF Cons.prems, of tester ign ev] Cons.IH[of "wait_on tester ign s ev"]
  show ?case by simp
qed

lemma wait_hit:
  assumes "is_data ev" and "\<not> w_resolved s" and "w_promise s = Pending"
    and "tester (w_stdout s @ out_of [ev]) (w_stderr s @ err_of [ev])"
  shows "w_resolved (wait_on tester ign s ev)
     \<and> w_promise (wait_on tester ign s ev)
         = Resolved (w_stdout s @ out_of [ev], w_stderr s @ err_of [ev])
     \<and> w_calls (wait_on tester ign s ev)
         = w_calls s @ [CallResolve (w_stdout s @ out_of [ev], w_stderr s @ err_of [ev])]"
  using assms by (cases ev) (simp_all add: wait_on_def wait_test_def settle_def)

text \<open>
  Claim C7. Let the tester be false after every chunk of \<open>pre\<close>. If it is true after
  the next chunk, the promise is resolved with the text accumulated up to that chunk,
  and whatever events follow, \<^verbatim>\<open>resolve\<close> is the only call ever made: no second
  \<^verbatim>\<open>resolve\<close>, no \<^verbatim>\<open>reject\<close>, no \<^verbatim>\<open>kill\<close>. If the process closes instead, the
  promise is resolved on code 0 or \<^verbatim>\<open>ignoreExitCode\<close> and rejected otherwise, exactly
  when the promise of \<^verbatim>\<open>exec\<close> is on the same trace.
\<close>

theorem execAndWaitUntil_contract:
  assumes "quiet tester [] [] pre"
  shows "(is_data ev \<and> tester (out_of (pre @ [ev])) (err_of (pre @ [ev])) \<longrightarrow>
            w_promise (execAndWaitUntil tester ign (pre @ [ev] @ later))
              = Resolved (out_of (pre @ [ev]), err_of (pre @ [ev]))
          \<and> w_calls (execAndWaitUntil tester ign (pre @ [ev] @ later))
              = [CallResolve (out_of (pre @ [ev]), err_of (pre @ [ev]))])
       \<and> w_promise (execAndWaitUntil tester ign (pre @ [Close code]))
           = (if code = Some 0 \<or> ign then Resolved (out_of pre, err_of pre)
              else Rejected (Error (''Command failed with exit code '' @ tmpl_code code @ '': ''
                     @ out_of pre @ '' '' @ err_of pre)))
       \<and> (\<exists>v. w_promise (execAndWaitUntil tester ign (pre @ [Close code])) = Resolved v)
           = (\<exists>v. x_promise (exec c cmd params ign (pre @ [Close code] @ [])) = Resolved v)"
proof -
  let ?s = "foldl (wait_on tester ign) wait_init pre"
  have s: "?s = \<lparr> w_stdout = out_of pre, w_stderr = err_of pre, w_resolved = False,
                   w_promise = Pending, w_calls = [] \<rparr>"
    using wait_quiet[of tester wait_init pre ign] assms by (simp add: wait_init_def)
  have hit: "w_promise (execAndWaitUntil tester ign (pre @ [ev] @ later))
              = Resolved (out_of (pre @ [ev]), err_of (pre @ [ev]))
          \<and> w_calls (execAndWaitUntil tester ign (pre @ [ev] @ later))
              = [CallResolve (out_of (pre @ [ev]), err_of (pre @ [ev]))]"
    if d: "is_data ev" and t: "tester (out_of (pre @ [ev])) (err_of (pre @ [ev]))"
  proof -
    have h: "w_resolved (wait_on tester ign ?s ev)
       \<and> w_promise (wait_on tester ign ?s ev)
           = Resolved (w_stdout ?s @ out_of [ev], w_stderr ?s @ err_of [ev])
       \<and> w_calls (wait_on tester ign ?s ev)
           = w_calls ?s @ [CallResolve (w_stdout ?s @ out_of [ev], w_stderr ?s @ err_of [ev])]"
      using d t by (intro wait_hit) (simp_all add: s out_of_append err_of_append)
    from h wait_resolved_stays[of "wait_on tester ign ?s ev" tester ign later]
    show ?thesis
      unfolding execAndWaitUntil_def foldl_append foldl_Cons foldl_Nil
      by (simp add: s out_of_append err_of_append)
  qed
  have cl: "w_promise (execAndWaitUntil tester ign (pre @ [Close code]))
           = (if code = Some 0 \<or> ign then Resolved (out_of pre, err_of pre)
              else Rejected (Error (''Command failed with exit code '' @ tmpl_code code @ '': ''
                     @ out_of pre @ '' '' @ err_of pre)))"
    unfolding execAndWaitUntil_def foldl_append foldl_Cons foldl_Nil s
    by (simp add: wait_on_def settle_def)
  have dat: "list_all is_data pre"
    using assms by (rule quiet_data)
  have ex: "(\<exists>v. x_promise (exec c cmd params ign (pre @ [Close code] @ [])) = Resolved v)
      = (code = Some 0 \<or> ign)"
    using exec_after_data[OF dat, of c cmd params ign code "[]"] by auto
  have wx: "(\<exists>v. w_promise (execAndWaitUntil tester ign (pre @ [Close code])) = Resolved v)
      = (code = Some 0 \<or> ign)"
    unfolding cl by auto
  from hit cl ex wx show ?thesis by blast
qed

theorem execAndWaitUntil_contract_witness:
  "w_promise (execAndWaitUntil (\<lambda>out err. str_includes out ''READY'') False
       ([StdoutData ''boot''] @ [StdoutData ''READY''] @ [StdoutData ''again READY'', Close (Some 1)]))
     = Resolved (''bootREADY'', [])
   \<and> w_calls (execAndWaitUntil (\<lambda>out err. str_includes out ''READY'') False
       ([StdoutData ''boot''] @ [StdoutData ''READY''] @ [StdoutData ''again READY'', Close (Some 1)]))
     = [CallResolve (''bootREADY'', [])]
   \<and> w_promise (execAndWaitUntil (\<lambda>out err. str_includes out ''READY'') False
       ([StdoutData ''boot''] @ [Close (Some 1)]))
     = Rejected (Error ''Command failed with exit code 1: boot '')"
  using execAndWaitUntil_contract [of "\<lambda>out err. str_includes out ''READY''"
      "[StdoutData ''boot'']" "StdoutData ''READY''" False
      "[StdoutData ''again READY'', Close (Some 1)]" "Some 1"]
  by (simp add: tmpl_code_def num_toString_def digits.simps)

section \<open>Properties of the event emitter\<close>

text \<open>
  Claim C8, as the code has it. Every emission is delivered on two event names: on the
  bare channel with the listener arguments \<open>(status, client, payload)\<close>, then on the
  compound name \<open>channel:status\<close> with the arguments \<open>(client, payload)\<close>. Client and
  payload are the same in both; the bare channel carries the status as an additional
  first argument.
\<close>

theorem emit_two_channels:
  "emit channel status pl es
     = es @ [(channel, [StatusArg status, ClientArg, PayloadArg pl]),
             (channel @ '':'' @ status, [ClientArg, PayloadArg pl])]
   \<and> emitted (conn_emit channel status pl s)
     = emitted s @ [(channel, [StatusArg status, ClientArg, PayloadArg pl]),
                    (channel @ '':'' @ status, [ClientArg, PayloadArg pl])]"
  by (simp add: emit_def conn_emit_def)

text \<open>
  Claim C8 as stated fails: the two deliveries do not carry the same arguments.
\<close>

theorem emit_same_payload_counterexample:
  "emit ''tunnel'' ''connect'' None []
     = [(''tunnel'', [StatusArg ''connect'', ClientArg, PayloadArg None]),
        (''tunnel:connect'', [ClientArg, PayloadArg None])]
   \<and> snd (emit ''tunnel'' ''connect'' None [] ! 0) \<noteq> snd (emit ''tunnel'' ''connect'' None [] ! 1)"
  by (simp add: emit_def)

section \<open>Properties of tunnels\<close>

lemma name_key_named [simp]: "name_key (tc\<lparr> name := Some n \<rparr>) = n"
  by (simp add: name_key_def tmpl_str_def)

lemma getTunnel_undefined:
  assumes "getTunnel s nm = None"
  shows "nm \<noteq> ''__proto__''" and "activeTunnels s nm = None"
  using assms by (auto simp add: getTunnel_def split: option.splits if_splits)

lemma getTunnel_conn_emit [simp]:
  "getTunnel (conn_emit channel status pl s) nm = getTunnel s nm"
  by (simp add: getTunnel_def conn_emit_def cong: option.case_cong)

lemma getTunnel_logged [simp]:
  "getTunnel (s\<lparr> logged := l \<rparr>) nm = getTunnel s nm"
  by (simp add: getTunnel_def cong: option.case_cong)

lemma addTunnel_existing:
  assumes "getTunnel s (computed_name tc) = Some v" and "truthy_value (Some v)"
  shows "fst (addTunnel tc s) = Existing v"
    and "attempts (snd (addTunnel tc s)) = attempts s"
    and "allocs (snd (addTunnel tc s)) = allocs s"
    and "activeTunnels (snd (addTunnel tc s)) = activeTunnels s"
    and "tunnelsProto (snd (addTunnel tc s)) = tunnelsProto s"
  using assms by (simp_all add: addTunnel_def Let_def) (simp_all add: conn_emit_def)

lemma startTunnelProcess_effect:
  "fst (startTunnelProcess tc lp s) = length (attempts s)"
  "name_key tc \<noteq> ''__proto__'' \<Longrightarrow>
   activeTunnels (snd (startTunnelProcess tc lp s))
     = (activeTunnels s)(name_key tc := Some (make_tunnel tc lp (length (attempts s))))"
  "attempts (snd (startTunnelProcess tc lp s))
     = attempts s @ [\<lparr> a_sshArgs = buildSSHArgs (config s) @ tunnelArgs tc lp, a_config = tc,
         a_tunnel = make_tunnel tc lp (length (attempts s)), a_stderr = [],
         a_promise = Pending, a_exitCode = None, a_killed = False \<rparr>]"
  "allocs (snd (startTunnelProcess tc lp s)) = allocs s"
  "emitted (snd (startTunnelProcess tc lp s)) = emitted s"
  by (simp_all add: startTunnelProcess_def set_tunnel_def Let_def)

lemma addTunnel_start:
  assumes "getTunnel s (computed_name tc) = None" and "localPort tc = Some lp" and "lp \<noteq> 0"
  shows "fst (addTunnel tc s) = Started (length (attempts s))"
    and "attempts (snd (addTunnel tc s))
       = attempts s @
           [\<lparr> a_sshArgs = buildSSHArgs (config s)
                 @ tunnelArgs (tc\<lparr> name := Some (computed_name tc) \<rparr>) lp,
              a_config = tc\<lparr> name := Some (computed_name tc) \<rparr>,
              a_tunnel = make_tunnel (tc\<lparr> name := Some (computed_name tc) \<rparr>) lp
                 (length (attempts s)),
              a_stderr = [], a_promise = Pending, a_exitCode = None, a_killed = False \<rparr>]"
    and "activeTunnels (snd (addTunnel tc s))
       = (activeTunnels s)(computed_name tc :=
            Some (make_tunnel (tc\<lparr> name := Some (computed_name tc) \<rparr>) lp (length (attempts s))))"
  using assms getTunnel_undefined(1)[OF assms(1)]
  by (simp_all add: addTunnel_def createTunnel_def Let_def startTunnelProcess_effect split_beta)
     (simp_all add: conn_emit_def)

lemma on_timer_alive:
  assumes "k < length (attempts s)" and "a_exitCode (attempts s ! k) = None"
  shows "attempt_promise (conn_step s (GraceTimer k)) k
           = settle (a_promise (attempts s ! k)) (Resolved (a_tunnel (attempts s ! k)))"
    and "emitted (conn_step s (GraceTimer k))
           = emit CHANNEL_TUNNEL STATUS_CONNECT (Some (TunnelPayload (a_tunnel (attempts s ! k))))
               (emitted s)"
    and "activeTunnels (conn_step s (GraceTimer k)) = activeTunnels s"
  using assms
  by (simp_all add: conn_step_def on_timer_def attempt_promise_def upd_attempt_def conn_emit_def
      Let_def)

text \<open>
  What the code does by design around the points where claims C2, C3 and C4 fail: a name
  that \<^verbatim>\<open>getTunnel\<close> answers with a tunnel is returned without a spawn; the tunnel is
  stored before its promise can settle; a call without a local port stores nothing
  until the port arrives; the grace timer rejects an exited process whose stderr is
  empty and does nothing for an exited process whose stderr is not; after a failed spawn
  the timer emits no \<open>connect\<close>.
\<close>

lemma addTunnel_returns_registered_tunnel:
  assumes "getTunnel s (computed_name tc) = Some (TunnelObj t)"
  shows "fst (addTunnel tc s) = Existing (TunnelObj t)"
    and "ticket_promise (snd (addTunnel tc s)) (fst (addTunnel tc s)) = Resolved (TunnelObj t)"
    and "attempts (snd (addTunnel tc s)) = attempts s"
    and "allocs (snd (addTunnel tc s)) = allocs s"
    and "activeTunnels (snd (addTunnel tc s)) = activeTunnels s"
  using addTunnel_existing[OF assms] by (simp_all add: truthy_value_def ticket_promise_def)

lemma addTunnel_twice_with_local_port:
  assumes "getTunnel s (computed_name tc1) = None" and "localPort tc1 = Some lp" and "lp \<noteq> 0"
    and "computed_name tc2 = computed_name tc1"
  shows "fst (addTunnel tc1 s) = Started (length (attempts s))"
    and "fst (addTunnel tc2 (snd (addTunnel tc1 s)))
       = Existing (TunnelObj (a_tunnel (attempts (snd (addTunnel tc1 s)) ! length (attempts s))))"
    and "length (attempts (snd (addTunnel tc2 (snd (addTunnel tc1 s))))) = Suc (length (attempts s))"
proof -
  let ?k = "length (attempts s)"
  let ?s1 = "snd (addTunnel tc1 s)"
  let ?tc = "tc1\<lparr> name := Some (computed_name tc1) \<rparr>"
  let ?t = "make_tunnel ?tc lp ?k"
  note st = addTunnel_start[OF assms(1,2,3)]
  have t1: "a_tunnel (attempts ?s1 ! ?k) = ?t"
    by (simp add: st(2))
  have g: "getTunnel ?s1 (computed_name tc2) = Some (TunnelObj ?t)"
    using getTunnel_undefined(1)[OF assms(1)] by (simp add: getTunnel_def st(3) assms(4))
  note ex = addTunnel_returns_registered_tunnel[OF g]
  show "fst (addTunnel tc1 s) = Started ?k" by (rule st(1))
  show "fst (addTunnel tc2 ?s1) = Existing (TunnelObj (a_tunnel (attempts ?s1 ! ?k)))"
    unfolding t1 by (rule ex(1))
  show "length (attempts (snd (addTunnel tc2 ?s1))) = Suc ?k"
    by (simp add: ex(3) st(2))
qed

lemma startTunnelProcess_registers_before_settling:
  "getTunnel (snd (startTunnelProcess tc lp s)) (name_key tc)
     = Some (TunnelObj (make_tunnel tc lp (length (attempts s))))
   \<and> attempt_promise (snd (startTunnelProcess tc lp s)) (fst (startTunnelProcess tc lp s))
     = Pending"
  by (simp add: startTunnelProcess_def set_tunnel_def getTunnel_def attempt_promise_def Let_def)

lemma createTunnel_without_port_registers_nothing:
  assumes "localPort tc = None \<or> localPort tc = Some 0"
  shows "fst (createTunnel tc s) = AwaitingPort (length (allocs s))"
    and "activeTunnels (snd (createTunnel tc s)) = activeTunnels s"
    and "tunnelsProto (snd (createTunnel tc s)) = tunnelsProto s"
    and "attempts (snd (createTunnel tc s)) = attempts s"
  using assms by (auto simp add: createTunnel_def)

lemma on_timer_exited_silent:
  assumes "k < length (attempts s)" and "a_exitCode (attempts s ! k) = Some code"
    and "a_stderr (attempts s ! k) = []"
  shows "attempt_promise (conn_step s (GraceTimer k)) k
           = settle (a_promise (attempts s ! k))
               (Rejected (Error (''Tunnel process exited with code '' @ num_toString code)))"
  using assms
  by (simp add: conn_step_def on_timer_def attempt_promise_def upd_attempt_def Let_def
      tmpl_code_def)

lemma on_timer_exited_with_stderr:
  assumes "k < length (attempts s)" and "a_exitCode (attempts s ! k) = Some code"
    and "a_stderr (attempts s ! k) \<noteq> []"
  shows "conn_step s (GraceTimer k) = s"
  using assms by (simp add: conn_step_def on_timer_def Let_def)

lemma failed_spawn_then_timer:
  assumes "k < length (attempts s)" and "a_stderr (attempts s ! k) = []"
  shows "attempt_promise (conn_run s [TunnelError k err (Some errno), GraceTimer k]) k
           = settle (a_promise (attempts s ! k)) (Rejected err)"
    and "emitted (conn_run s [TunnelError k err (Some errno), GraceTimer k])
           = emit CHANNEL_TUNNEL STATUS_DISCONNECT
               (Some (ConfigErrPayload (a_config (attempts s ! k)) err)) (emitted s)"
  using assms
  by (simp_all add: conn_run_def conn_step_def on_error_def on_timer_def attempt_promise_def
      upd_attempt_def delete_tunnel_def conn_emit_def settle_def Let_def split: promise.splits)

lemmas tunnel_defs = addTunnel_def createTunnel_def startTunnelProcess_def conn_emit_def
  getTunnel_def set_tunnel_def truthy_value_def object_prototype_keys_def tunnel_field_def
  computed_name_def port_or_socket_def name_key_def make_tunnel_def
  conn_run_def conn_step_def on_port_def on_error_def on_exit_def on_stderr_def on_timer_def
  upd_attempt_def delete_tunnel_def attempt_promise_def ticket_promise_def as_value_def
  settle_def new_SSHConnection_def truthy_num_def truthy_str_def tmpl_num_def tmpl_str_def
  tmpl_code_def fatal_stderr_def Let_def split_beta

lemma addTunnel_inherited_name:
  "fst (addTunnel \<lparr> remoteAddr = Some ''localhost'', localPort = Some 9000,
            remotePort = Some 8000, remoteSocketPath = None, name = Some ''constructor'' \<rparr>
         (new_SSHConnection \<lparr> o_host = ''example.com'', o_port = Absent,
              o_username = Present (Some ''alice''), o_identity = Absent,
              o_connectTimeout = Absent, o_sshOptions = Absent \<rparr>)) = Existing (ProtoMember ''constructor'')
   \<and> attempts (snd (addTunnel \<lparr> remoteAddr = Some ''localhost'', localPort = Some 9000,
            remotePort = Some 8000, remoteSocketPath = None, name = Some ''constructor'' \<rparr>
         (new_SSHConnection \<lparr> o_host = ''example.com'', o_port = Absent,
              o_username = Present (Some ''alice''), o_identity = Absent,
              o_connectTimeout = Absent, o_sshOptions = Absent \<rparr>))) = []"
  by (simp add: tunnel_defs)

text \<open>
  Claim C2 fails on the code when no local port is given. Two calls of \<^verbatim>\<open>addTunnel\<close>
  with the same specification, hence the same computed name, are made before the
  operating system has answered the first port request. Both ports arrive, both grace
  timers find their process alive. Two child processes have been spawned, and the two
  promises are resolved with two different tunnel objects.
\<close>

theorem addTunnel_twice_without_port_not_idempotent:
  "(let first = addTunnel \<lparr> remoteAddr = Some ''localhost'', localPort = None,
            remotePort = Some 8000, remoteSocketPath = None, name = None \<rparr> (new_SSHConnection \<lparr> o_host = ''example.com'', o_port = Absent,
              o_username = Present (Some ''alice''), o_identity = Absent,
              o_connectTimeout = Absent, o_sshOptions = Absent \<rparr>);
        second = addTunnel \<lparr> remoteAddr = Some ''localhost'', localPort = None,
            remotePort = Some 8000, remoteSocketPath = None, name = None \<rparr> (snd first);
        s = conn_run (snd second)
              [PortReady 0 40001, PortReady 1 40002, GraceTimer 0, GraceTimer 1]
    in computed_name \<lparr> remoteAddr = Some ''localhost'', localPort = None,
            remotePort = Some 8000, remoteSocketPath = None, name = None \<rparr> = ''localhost@8000''
     \<and> length (attempts s) = 2
     \<and> ticket_promise s (fst first)
         = Resolved (TunnelObj \<lparr> remoteAddr = Some ''localhost'', localPort = Some 40001,
             remotePort = Some 8000, remoteSocketPath = None, name = Some ''localhost@8000'',
             process = 0 \<rparr>)
     \<and> ticket_promise s (fst second)
         = Resolved (TunnelObj \<lparr> remoteAddr = Some ''localhost'', localPort = Some 40002,
             remotePort = Some 8000, remoteSocketPath = None, name = Some ''localhost@8000'',
             process = 1 \<rparr>))"
proof -
  define s where "s = conn_run (snd (addTunnel \<lparr> remoteAddr = Some ''localhost'', localPort = None,
            remotePort = Some 8000, remoteSocketPath = None, name = None \<rparr> (snd (addTunnel \<lparr> remoteAddr = Some ''localhost'', localPort = None,
            remotePort = Some 8000, remoteSocketPath = None, name = None \<rparr> (new_SSHConnection \<lparr> o_host = ''example.com'', o_port = Absent,
              o_username = Present (Some ''alice''), o_identity = Absent,
              o_connectTimeout = Absent, o_sshOptions = Absent \<rparr>)))))
              [PortReady 0 40001, PortReady 1 40002, GraceTimer 0, GraceTimer 1]"
  have c: "computed_name \<lparr> remoteAddr = Some ''localhost'', localPort = None,
            remotePort = Some 8000, remoteSocketPath = None, name = None \<rparr> = ''localhost@8000''"
    by (simp add: computed_name_def port_or_socket_def truthy_num_def tmpl_num_def tmpl_str_def
        num_toString_def digits.simps)
  have f: "fst (addTunnel \<lparr> remoteAddr = Some ''localhost'', localPort = None,
            remotePort = Some 8000, remoteSocketPath = None, name = None \<rparr> (new_SSHConnection \<lparr> o_host = ''example.com'', o_port = Absent,
              o_username = Present (Some ''alice''), o_identity = Absent,
              o_connectTimeout = Absent, o_sshOptions = Absent \<rparr>)) = AwaitingPort 0"
    by (simp add: tunnel_defs)
  have g: "fst (addTunnel \<lparr> remoteAddr = Some ''localhost'', localPort = None,
            remotePort = Some 8000, remoteSocketPath = None, name = None \<rparr> (snd (addTunnel \<lparr> remoteAddr = Some ''localhost'', localPort = None,
            remotePort = Some 8000, remoteSocketPath = None, name = None \<rparr> (new_SSHConnection \<lparr> o_host = ''example.com'', o_port = Absent,
              o_username = Present (Some ''alice''), o_identity = Absent,
              o_connectTimeout = Absent, o_sshOptions = Absent \<rparr>)))) = AwaitingPort 1"
    by (simp add: tunnel_defs)
  have a: "map a_promise (attempts s)
      = [Resolved \<lparr> remoteAddr = Some ''localhost'', localPort = Some 40001,
             remotePort = Some 8000, remoteSocketPath = None, name = Some ''localhost@8000'',
             process = 0 \<rparr>,
         Resolved \<lparr> remoteAddr = Some ''localhost'', localPort = Some 40002,
             remotePort = Some 8000, remoteSocketPath = None, name = Some ''localhost@8000'',
             process = 1 \<rparr>]"
    unfolding s_def by (simp add: tunnel_defs num_toString_def digits.simps)
  have l: "map snd (allocs s) = [Some 0, Some 1]"
    unfolding s_def by (simp add: tunnel_defs num_toString_def digits.simps)
  have la: "length (attempts s) = 2" "length (allocs s) = 2"
    using arg_cong[OF a, of length] arg_cong[OF l, of length] by simp_all
  have k0: "snd (allocs s ! 0) = Some 0" and k1: "snd (allocs s ! Suc 0) = Some (Suc 0)"
    using la(2) nth_map[of 0 "allocs s" snd] nth_map[of "Suc 0" "allocs s" snd]
    by (simp_all add: l)
  have p0: "a_promise (attempts s ! 0) = Resolved \<lparr> remoteAddr = Some ''localhost'', localPort = Some 40001,
             remotePort = Some 8000, remoteSocketPath = None, name = Some ''localhost@8000'',
             process = 0 \<rparr>"
    and p1: "a_promise (attempts s ! Suc 0) = Resolved \<lparr> remoteAddr = Some ''localhost'', localPort = Some 40002,
             remotePort = Some 8000, remoteSocketPath = None, name = Some ''localhost@8000'',
             process = 1 \<rparr>"
    using la(1) nth_map[of 0 "attempts s" a_promise] nth_map[of "Suc 0" "attempts s" a_promise]
    by (simp_all add: a)
  have t0: "ticket_promise s (AwaitingPort 0) = Resolved (TunnelObj \<lparr> remoteAddr = Some ''localhost'', localPort = Some 40001,
             remotePort = Some 8000, remoteSocketPath = None, name = Some ''localhost@8000'',
             process = 0 \<rparr>)"
    by (simp add: ticket_promise_def attempt_promise_def as_value_def la k0 p0)
  have t1: "ticket_promise s (AwaitingPort 1) = Resolved (TunnelObj \<lparr> remoteAddr = Some ''localhost'', localPort = Some 40002,
             remotePort = Some 8000, remoteSocketPath = None, name = Some ''localhost@8000'',
             process = 1 \<rparr>)"
    by (simp add: ticket_promise_def attempt_promise_def as_value_def la k1 p1)
  show ?thesis
    unfolding Let_def f g c s_def[symmetric] using la(1) t0 t1 by simp
qed

text \<open>
  Claim C3 fails on the code. The tunnel process writes a message to stderr that has none
  of the three fatal patterns and exits with code 255 before the grace timer. The timer
  then finds an exit code and a non-empty stderr text and does nothing: the promise is
  neither resolved nor rejected.
\<close>

theorem tunnel_exit_with_other_stderr_stays_pending:
  "\<not> fatal_stderr ''ssh: Could not resolve hostname example.com''
   \<and> a_exitCode (attempts
       (conn_run
          (snd (addTunnel \<lparr> remoteAddr = Some ''localhost'', localPort = Some 9000,
                  remotePort = Some 8000, remoteSocketPath = None, name = None \<rparr>
                (new_SSHConnection \<lparr> o_host = ''example.com'', o_port = Absent,
                   o_username = Present (Some ''alice''), o_identity = Absent,
                   o_connectTimeout = Absent, o_sshOptions = Absent \<rparr>)))
          [TunnelStderr 0 ''ssh: Could not resolve hostname example.com'',
           TunnelExit 0 (Some 255), GraceTimer 0]) ! 0) = Some 255
   \<and> attempt_promise
       (conn_run
          (snd (addTunnel \<lparr> remoteAddr = Some ''localhost'', localPort = Some 9000,
                  remotePort = Some 8000, remoteSocketPath = None, name = None \<rparr>
                (new_SSHConnection \<lparr> o_host = ''example.com'', o_port = Absent,
                   o_username = Present (Some ''alice''), o_identity = Absent,
                   o_connectTimeout = Absent, o_sshOptions = Absent \<rparr>)))
          [TunnelStderr 0 ''ssh: Could not resolve hostname example.com'',
           TunnelExit 0 (Some 255), GraceTimer 0]) 0
     = Pending"
  by (simp add: tunnel_defs)

text \<open>
  Claim C4 fails on the code when no local port is given. Two calls of \<^verbatim>\<open>addTunnel\<close>
  for the same name are made before the operating system has answered the first port
  request. The second call does not see the first (it waits for a port of its own);
  once both ports arrive two processes are spawned, and the map holds the tunnel of the
  second.
\<close>

theorem concurrent_addTunnel_ephemeral_port_spawns_twice:
  "fst (addTunnel \<lparr> remoteAddr = Some ''localhost'', localPort = None,
            remotePort = Some 8000, remoteSocketPath = None, name = None \<rparr>
         (snd (addTunnel \<lparr> remoteAddr = Some ''localhost'', localPort = None,
                  remotePort = Some 8000, remoteSocketPath = None, name = None \<rparr>
               (new_SSHConnection \<lparr> o_host = ''example.com'', o_port = Absent,
                  o_username = Present (Some ''alice''), o_identity = Absent,
                  o_connectTimeout = Absent, o_sshOptions = Absent \<rparr>))))
     = AwaitingPort 1
   \<and> length (attempts (conn_run
         (snd (addTunnel \<lparr> remoteAddr = Some ''localhost'', localPort = None,
            remotePort = Some 8000, remoteSocketPath = None, name = None \<rparr>
         (snd (addTunnel \<lparr> remoteAddr = Some ''localhost'', localPort = None,
                  remotePort = Some 8000, remoteSocketPath = None, name = None \<rparr>
               (new_SSHConnection \<lparr> o_host = ''example.com'', o_port = Absent,
                  o_username = Present (Some ''alice''), o_identity = Absent,
                  o_connectTimeout = Absent, o_sshOptions = Absent \<rparr>)))))
         [PortReady 0 40001, PortReady 1 40002])) = 2
   \<and> activeTunnels (conn_run
         (snd (addTunnel \<lparr> remoteAddr = Some ''localhost'', localPort = None,
            remotePort = Some 8000, remoteSocketPath = None, name = None \<rparr>
         (snd (addTunnel \<lparr> remoteAddr = Some ''localhost'', localPort = None,
                  remotePort = Some 8000, remoteSocketPath = None, name = None \<rparr>
               (new_SSHConnection \<lparr> o_host = ''example.com'', o_port = Absent,
                  o_username = Present (Some ''alice''), o_identity = Absent,
                  o_connectTimeout = Absent, o_sshOptions = Absent \<rparr>)))))
         [PortReady 0 40001, PortReady 1 40002]) ''localhost@8000''
     = Some \<lparr> remoteAddr = Some ''localhost'', localPort = Some 40002, remotePort = Some 8000,
              remoteSocketPath = None, name = Some ''localhost@8000'', process = 1 \<rparr>"
  by (simp add: tunnel_defs num_toString_def digits.simps)

section \<open>Properties of the resolver\<close>

lemma resolve_accepted:
  assumes "fst (authority_parts authority) = Some REMOTE_SSH_AUTHORITY"
    and "parseEncoded env (snd (authority_parts authority)) = Inr d"
  shows "resolve env authority n r
     = (Returns (fst (resolve_task env d (r\<lparr> r_logged := r_logged r @
            [LogInfo (''Resolving ssh remote authority '' @ [CHR 0x27] @ authority
               @ [CHR 0x27] @ '' (attempt #'' @ num_toString n @ '')'')] \<rparr>))),
        snd (resolve_task env d (r\<lparr> r_logged := r_logged r @
            [LogInfo (''Resolving ssh remote authority '' @ [CHR 0x27] @ authority
               @ [CHR 0x27] @ '' (attempt #'' @ num_toString n @ '')'')] \<rparr>)))"
  using assms by (simp add: resolve_def split_beta Let_def)

lemma resolve_parse_failures_thrown:
  "fst (authority_parts authority) \<noteq> Some REMOTE_SSH_AUTHORITY \<Longrightarrow>
     resolve env authority n r
       = (Throws (Error (''Invalid authority type for SSH resolver: ''
            @ tmpl_str (fst (authority_parts authority)))), r)"
  "fst (authority_parts authority) = Some REMOTE_SSH_AUTHORITY \<Longrightarrow>
   parseEncoded env (snd (authority_parts authority)) = Inl err \<Longrightarrow>
     fst (resolve env authority n r) = Throws err"
  by (simp_all add: resolve_def split_beta Let_def)

lemma detect_platform_cases:
  "detect_platform env c d r =
     (if truthy_str (cfg_remotePlatform env (hostname d))
      then (Resolved (cfg_remotePlatform env (hostname d)), r)
      else (case x_promise (exec (config c) ''uname -s'' None False (probe_events env)) of
              Pending \<Rightarrow> (Pending, r)
            | Resolved result \<Rightarrow>
                (Resolved (classify (fst result) (cfg_remotePlatform env (hostname d))), r)
            | Rejected err \<Rightarrow>
                (Resolved (cfg_remotePlatform env (hostname d)),
                 r\<lparr> r_logged := r_logged r @ [LogError ''Failed to detect platform: '' err] \<rparr>)))"
  by (simp add: detect_platform_def Let_def)

lemma detect_platform_fields:
  "sshConnection (snd (detect_platform env c d r)) = sshConnection r"
  "tunnels (snd (detect_platform env c d r)) = tunnels r"
  "install_calls (snd (detect_platform env c d r)) = install_calls r"
  "fst (detect_platform env c d r) \<noteq> Rejected e"
  by (simp_all add: detect_platform_cases split: promise.splits)

lemma task_catch_simps:
  "fst (task_catch err r) = Rejected (RemoteAuthorityResolverError (thrown_message err))"
  "tunnels (snd (task_catch err r)) = tunnels r"
  "sshConnection (snd (task_catch err r)) = sshConnection r"
  "install_calls (snd (task_catch err r)) = install_calls r"
  "r_logged (snd (task_catch err r)) = r_logged r @ [LogError ''Failed to resolve SSH authority: '' err]"
  by (simp_all add: task_catch_def)

text \<open>The task after platform detection has given a hint.\<close>

lemma resolve_task_detected:
  assumes "detect_platform env (new_SSHConnection (resolver_options env d)) d
             (r\<lparr> sshConnection := Some (new_SSHConnection (resolver_options env d)) \<rparr>)
           = (Resolved p, r2)"
  shows "resolve_task env d r =
     (case installCodeServer env p of
        Inl err \<Rightarrow> task_catch err (r2\<lparr> install_calls := install_calls r2 @ [p] \<rparr>)
      | Inr serverResult \<Rightarrow>
          (case findRandomPort env of
             Inl err \<Rightarrow> task_catch err (r2\<lparr> install_calls := install_calls r2 @ [p] \<rparr>)
           | Inr lp \<Rightarrow>
               (case fst (open_tunnel env (new_SSHConnection (resolver_options env d)) serverResult lp) of
                  Pending \<Rightarrow>
                    (Pending, r2\<lparr> install_calls := install_calls r2 @ [p],
                       sshConnection := Some (snd (open_tunnel env
                         (new_SSHConnection (resolver_options env d)) serverResult lp)) \<rparr>)
                | Rejected err \<Rightarrow>
                    task_catch err (r2\<lparr> install_calls := install_calls r2 @ [p],
                       sshConnection := Some (snd (open_tunnel env
                         (new_SSHConnection (resolver_options env d)) serverResult lp)) \<rparr>)
                | Resolved t \<Rightarrow>
                    (Resolved \<lparr> res_host = ''localhost'', res_port = lp,
                                res_connectionToken = connectionToken serverResult \<rparr>,
                     r2\<lparr> install_calls := install_calls r2 @ [p],
                         sshConnection := Some (snd (open_tunnel env
                           (new_SSHConnection (resolver_options env d)) serverResult lp)),
                         tunnels := tunnels r2 @
                           [\<lparr> ti_localPort = lp,
                              ti_remotePortOrSocketPath = listeningOn serverResult \<rparr>] \<rparr>))))"
  using assms
  by (simp add: resolve_task_def Let_def split: sum.splits prod.splits promise.splits)

lemma resolve_task_pending:
  assumes "fst (detect_platform env (new_SSHConnection (resolver_options env d)) d
             (r\<lparr> sshConnection := Some (new_SSHConnection (resolver_options env d)) \<rparr>))
           = Pending"
  shows "fst (resolve_task env d r) = Pending"
proof -
  obtain r2 where "detect_platform env (new_SSHConnection (resolver_options env d)) d
             (r\<lparr> sshConnection := Some (new_SSHConnection (resolver_options env d)) \<rparr>)
           = (Pending, r2)"
    using assms by (metis prod.collapse)
  then show ?thesis
    by (simp add: resolve_task_def Let_def)
qed

lemma resolve_task_rejection_wrapped:
  assumes "fst (resolve_task env d r) = Rejected e"
  shows "\<exists>m. e = RemoteAuthorityResolverError m"
proof -
  let ?c0 = "new_SSHConnection (resolver_options env d)"
  let ?dp = "detect_platform env ?c0 d (r\<lparr> sshConnection := Some ?c0 \<rparr>)"
  show ?thesis
  proof (cases "fst ?dp")
    case Pending
    then have "fst (resolve_task env d r) = Pending" by (rule resolve_task_pending)
    with assms show ?thesis by simp
  next
    case (Rejected x)
    with detect_platform_fields(4) show ?thesis by blast
  next
    case (Resolved p)
    then have dp: "?dp = (Resolved p, snd ?dp)" by (metis prod.collapse)
    from assms show ?thesis
      unfolding resolve_task_detected[OF dp]
      by (auto simp add: task_catch_def split: sum.splits promise.splits)
  qed
qed

lemma new_SSHConnection_empty:
  "activeTunnels (new_SSHConnection options) k = None"
  "attempts (new_SSHConnection options) = []"
  "allocs (new_SSHConnection options) = []"
  by (simp_all add: new_SSHConnection_def)

lemma detect_platform_settled:
  assumes "truthy_str (cfg_remotePlatform env (hostname d))
      \<or> x_promise (exec (config c) ''uname -s'' None False (probe_events env)) \<noteq> Pending"
  shows "\<exists>p. fst (detect_platform env c d r) = Resolved p"
  using assms by (auto simp add: detect_platform_cases split: promise.splits)

text \<open>
  Claim C5, as the code has it. When the type tag is the expected one and the destination
  decodes, \<^verbatim>\<open>resolve\<close> does not throw but returns a promise, and every rejection of
  that promise is a \<^verbatim>\<open>RemoteAuthorityResolverError\<close>. It carries the message of the
  underlying failure: of the bootstrap routine, of the port allocation, of the tunnel.
  When the bootstrap routine throws, no tunnel is recorded by the resolver and the
  connection it created has no tunnel and has spawned no tunnel process. (A wrong type
  tag, or a destination that does not decode, is thrown as it is, before the task
  starts.)
\<close>

theorem resolve_wraps_task_failures:
  assumes "fst (authority_parts authority) = Some REMOTE_SSH_AUTHORITY"
    and "parseEncoded env (snd (authority_parts authority)) = Inr d"
  shows "(\<exists>p. fst (resolve env authority n r) = Returns p
            \<and> (\<forall>x. p = Rejected x \<longrightarrow> (\<exists>m. x = RemoteAuthorityResolverError m)))
     \<and> ((truthy_str (cfg_remotePlatform env (hostname d))
           \<or> x_promise (exec (config (new_SSHConnection (resolver_options env d)))
                 ''uname -s'' None False (probe_events env)) \<noteq> Pending)
         \<and> (\<forall>p. installCodeServer env p = Inl e) \<longrightarrow>
           fst (resolve env authority n r)
             = Returns (Rejected (RemoteAuthorityResolverError (thrown_message e)))
         \<and> tunnels (snd (resolve env authority n r)) = tunnels r
         \<and> sshConnection (snd (resolve env authority n r))
             = Some (new_SSHConnection (resolver_options env d))
         \<and> (\<forall>k. activeTunnels (new_SSHConnection (resolver_options env d)) k = None)
         \<and> attempts (new_SSHConnection (resolver_options env d)) = [])
     \<and> ((truthy_str (cfg_remotePlatform env (hostname d))
           \<or> x_promise (exec (config (new_SSHConnection (resolver_options env d)))
                 ''uname -s'' None False (probe_events env)) \<noteq> Pending)
         \<and> (\<forall>p. installCodeServer env p = Inr sr) \<and> findRandomPort env = Inl e \<longrightarrow>
           fst (resolve env authority n r)
             = Returns (Rejected (RemoteAuthorityResolverError (thrown_message e))))
     \<and> ((truthy_str (cfg_remotePlatform env (hostname d))
           \<or> x_promise (exec (config (new_SSHConnection (resolver_options env d)))
                 ''uname -s'' None False (probe_events env)) \<noteq> Pending)
         \<and> (\<forall>p. installCodeServer env p = Inr sr) \<and> findRandomPort env = Inr lp
         \<and> fst (open_tunnel env (new_SSHConnection (resolver_options env d)) sr lp) = Rejected e
         \<longrightarrow>
           fst (resolve env authority n r)
             = Returns (Rejected (RemoteAuthorityResolverError (thrown_message e))))"
proof -
  let ?c0 = "new_SSHConnection (resolver_options env d)"
  let ?r1 = "r\<lparr> r_logged := r_logged r @
            [LogInfo (''Resolving ssh remote authority '' @ [CHR 0x27] @ authority
               @ [CHR 0x27] @ '' (attempt #'' @ num_toString n @ '')'')] \<rparr>"
  let ?dp = "detect_platform env ?c0 d (?r1\<lparr> sshConnection := Some ?c0 \<rparr>)"
  let ?settles = "truthy_str (cfg_remotePlatform env (hostname d))
           \<or> x_promise (exec (config ?c0) ''uname -s'' None False (probe_events env)) \<noteq> Pending"
  note res = resolve_accepted[OF assms, of n r]
  have shape: "\<exists>p. fst (resolve env authority n r) = Returns p
            \<and> (\<forall>x. p = Rejected x \<longrightarrow> (\<exists>m. x = RemoteAuthorityResolverError m))"
    unfolding res using resolve_task_rejection_wrapped[of env d ?r1] by simp
  have det: "\<exists>p. ?dp = (Resolved p, snd ?dp)" if "?settles"
    using detect_platform_settled[OF that, of "?r1\<lparr> sshConnection := Some ?c0 \<rparr>"]
    by (metis prod.collapse)
  have boot: "fst (resolve env authority n r)
             = Returns (Rejected (RemoteAuthorityResolverError (thrown_message e)))
         \<and> tunnels (snd (resolve env authority n r)) = tunnels r
         \<and> sshConnection (snd (resolve env authority n r)) = Some ?c0
         \<and> (\<forall>k. activeTunnels ?c0 k = None) \<and> attempts ?c0 = []"
    if h: "?settles \<and> (\<forall>p. installCodeServer env p = Inl e)"
  proof -
    from h det obtain p where dp: "?dp = (Resolved p, snd ?dp)" by blast
    from h have i: "installCodeServer env p = Inl e" by simp
    show ?thesis
      unfolding res resolve_task_detected[OF dp]
      by (simp add: i task_catch_simps detect_platform_fields new_SSHConnection_empty)
  qed
  have prt: "fst (resolve env authority n r)
             = Returns (Rejected (RemoteAuthorityResolverError (thrown_message e)))"
    if h: "?settles \<and> (\<forall>p. installCodeServer env p = Inr sr) \<and> findRandomPort env = Inl e"
  proof -
    from h det obtain p where dp: "?dp = (Resolved p, snd ?dp)" by blast
    from h have i: "installCodeServer env p = Inr sr" "findRandomPort env = Inl e" by simp_all
    show ?thesis
      unfolding res resolve_task_detected[OF dp] by (simp add: i task_catch_simps)
  qed
  have tun: "fst (resolve env authority n r)
             = Returns (Rejected (RemoteAuthorityResolverError (thrown_message e)))"
    if h: "?settles \<and> (\<forall>p. installCodeServer env p = Inr sr) \<and> findRandomPort env = Inr lp
         \<and> fst (open_tunnel env ?c0 sr lp) = Rejected e"
  proof -
    from h det obtain p where dp: "?dp = (Resolved p, snd ?dp)" by blast
    from h have i: "installCodeServer env p = Inr sr" "findRandomPort env = Inr lp"
      "fst (open_tunnel env ?c0 sr lp) = Rejected e" by simp_all
    show ?thesis
      unfolding res resolve_task_detected[OF dp] by (simp add: i task_catch_simps)
  qed
  from shape boot prt tun show ?thesis by blast
qed

theorem resolve_wraps_task_failures_witness:
  "(let env = \<lparr> parseEncoded = (\<lambda>x. case x of None \<Rightarrow> Inl (Error ''no destination'')
            | Some h \<Rightarrow> Inr \<lparr> hostname = h, dest_port = None, user = Some ''alice'' \<rparr>),
          cfg_remotePlatform = (\<lambda>h. Some ''linux''), cfg_connectTimeout = 60, env_USER = None,
          probe_events = [],
          installCodeServer = (\<lambda>p. Inl (Error ''boom'')),
          findRandomPort = Inr 40000, tunnel_events = [] \<rparr>
    in fst (resolve env ''ssh-remote+example.com'' 1 new_resolver)
         = Returns (Rejected (RemoteAuthorityResolverError ''boom''))
       \<and> tunnels (snd (resolve env ''ssh-remote+example.com'' 1 new_resolver)) = [])
   \<and> (let env = \<lparr> parseEncoded = (\<lambda>x. case x of None \<Rightarrow> Inl (Error ''no destination'')
            | Some h \<Rightarrow> Inr \<lparr> hostname = h, dest_port = None, user = Some ''alice'' \<rparr>),
          cfg_remotePlatform = (\<lambda>h. Some ''linux''), cfg_connectTimeout = 60, env_USER = None,
          probe_events = [],
          installCodeServer = (\<lambda>p. Inr \<lparr> listeningOn = Inl 8000, connectionToken = ''tok'' \<rparr>),
          findRandomPort = Inl (Error ''no free port''), tunnel_events = [] \<rparr>
      in fst (resolve env ''ssh-remote+example.com'' 1 new_resolver)
           = Returns (Rejected (RemoteAuthorityResolverError ''no free port'')))
   \<and> (let env = \<lparr> parseEncoded = (\<lambda>x. case x of None \<Rightarrow> Inl (Error ''no destination'')
            | Some h \<Rightarrow> Inr \<lparr> hostname = h, dest_port = None, user = Some ''alice'' \<rparr>),
          cfg_remotePlatform = (\<lambda>h. Some ''linux''), cfg_connectTimeout = 60, env_USER = None,
          probe_events = [],
          installCodeServer = (\<lambda>p. Inr \<lparr> listeningOn = Inl 8000, connectionToken = ''tok'' \<rparr>),
          findRandomPort = Inr 40000, tunnel_events = [TunnelExit 0 (Some 255), GraceTimer 0] \<rparr>
      in fst (resolve env ''ssh-remote+example.com'' 1 new_resolver)
           = Returns (Rejected (RemoteAuthorityResolverError ''Tunnel process exited with code 255'')))"
proof -
  have a: "fst (authority_parts ''ssh-remote+example.com'') = Some REMOTE_SSH_AUTHORITY"
    "snd (authority_parts ''ssh-remote+example.com'') = Some ''example.com''"
    by (simp_all add: authority_parts_def REMOTE_SSH_AUTHORITY_def)
  have t: "fst (open_tunnel \<lparr> parseEncoded = (\<lambda>x. case x of None \<Rightarrow> Inl (Error ''no destination'')
            | Some h \<Rightarrow> Inr \<lparr> hostname = h, dest_port = None, user = Some ''alice'' \<rparr>),
          cfg_remotePlatform = (\<lambda>h. Some ''linux''), cfg_connectTimeout = 60, env_USER = None,
          probe_events = [],
          installCodeServer = (\<lambda>p. Inr \<lparr> listeningOn = Inl 8000, connectionToken = ''tok'' \<rparr>),
          findRandomPort = Inr 40000, tunnel_events = [TunnelExit 0 (Some 255), GraceTimer 0] \<rparr>
        (new_SSHConnection (resolver_options \<lparr> parseEncoded = (\<lambda>x. case x of None \<Rightarrow> Inl (Error ''no destination'')
            | Some h \<Rightarrow> Inr \<lparr> hostname = h, dest_port = None, user = Some ''alice'' \<rparr>),
          cfg_remotePlatform = (\<lambda>h. Some ''linux''), cfg_connectTimeout = 60, env_USER = None,
          probe_events = [],
          installCodeServer = (\<lambda>p. Inr \<lparr> listeningOn = Inl 8000, connectionToken = ''tok'' \<rparr>),
          findRandomPort = Inr 40000, tunnel_events = [TunnelExit 0 (Some 255), GraceTimer 0] \<rparr> \<lparr> hostname = ''example.com'', dest_port = None, user = Some ''alice'' \<rparr>)) \<lparr> listeningOn = Inl 8000, connectionToken = ''tok'' \<rparr> 40000)
      = Rejected (Error ''Tunnel process exited with code 255'')"
    by (simp add: open_tunnel_def server_tunnelConfig_def tunnel_defs num_toString_def digits.simps)
  from resolve_wraps_task_failures [of "''ssh-remote+example.com''" "\<lparr> parseEncoded = (\<lambda>x. case x of None \<Rightarrow> Inl (Error ''no destination'')
            | Some h \<Rightarrow> Inr \<lparr> hostname = h, dest_port = None, user = Some ''alice'' \<rparr>),
          cfg_remotePlatform = (\<lambda>h. Some ''linux''), cfg_connectTimeout = 60, env_USER = None,
          probe_events = [],
          installCodeServer = (\<lambda>p. Inl (Error ''boom'')),
          findRandomPort = Inr 40000, tunnel_events = [] \<rparr>" "\<lparr> hostname = ''example.com'', dest_port = None, user = Some ''alice'' \<rparr>" 1
      new_resolver "Error ''boom''"]
    resolve_wraps_task_failures [of "''ssh-remote+example.com''" "\<lparr> parseEncoded = (\<lambda>x. case x of None \<Rightarrow> Inl (Error ''no destination'')
            | Some h \<Rightarrow> Inr \<lparr> hostname = h, dest_port = None, user = Some ''alice'' \<rparr>),
          cfg_remotePlatform = (\<lambda>h. Some ''linux''), cfg_connectTimeout = 60, env_USER = None,
          probe_events = [],
          installCodeServer = (\<lambda>p. Inr \<lparr> listeningOn = Inl 8000, connectionToken = ''tok'' \<rparr>),
          findRandomPort = Inl (Error ''no free port''), tunnel_events = [] \<rparr>" "\<lparr> hostname = ''example.com'', dest_port = None, user = Some ''alice'' \<rparr>" 1
      new_resolver "Error ''no free port''" "\<lparr> listeningOn = Inl 8000, connectionToken = ''tok'' \<rparr>"]
    resolve_wraps_task_failures [of "''ssh-remote+example.com''" "\<lparr> parseEncoded = (\<lambda>x. case x of None \<Rightarrow> Inl (Error ''no destination'')
            | Some h \<Rightarrow> Inr \<lparr> hostname = h, dest_port = None, user = Some ''alice'' \<rparr>),
          cfg_remotePlatform = (\<lambda>h. Some ''linux''), cfg_connectTimeout = 60, env_USER = None,
          probe_events = [],
          installCodeServer = (\<lambda>p. Inr \<lparr> listeningOn = Inl 8000, connectionToken = ''tok'' \<rparr>),
          findRandomPort = Inr 40000, tunnel_events = [TunnelExit 0 (Some 255), GraceTimer 0] \<rparr>" "\<lparr> hostname = ''example.com'', dest_port = None, user = Some ''alice'' \<rparr>" 1 new_resolver
      "Error ''Tunnel process exited with code 255''" "\<lparr> listeningOn = Inl 8000, connectionToken = ''tok'' \<rparr>" 40000]
    a t
  show ?thesis
    by (simp add: Let_def truthy_str_def thrown_message_def new_resolver_def)
qed

text \<open>
  Claim C5 as stated fails at the parse step: a wrong type tag makes \<^verbatim>\<open>resolve\<close> throw
  a plain \<^verbatim>\<open>Error\<close>, not wrapped and not as a rejected promise.
\<close>

theorem resolve_invalid_authority_counterexample:
  "fst (resolve \<lparr> parseEncoded = (\<lambda>x. case x of None \<Rightarrow> Inl (Error ''no destination'')
            | Some h \<Rightarrow> Inr \<lparr> hostname = h, dest_port = None, user = Some ''alice'' \<rparr>),
          cfg_remotePlatform = (\<lambda>h. Some ''linux''), cfg_connectTimeout = 60, env_USER = None,
          probe_events = [],
          installCodeServer = (\<lambda>p. Inl (Error ''boom'')),
          findRandomPort = Inr 40000, tunnel_events = [] \<rparr> ''foo+example.com'' 1 new_resolver)
     = Throws (Error ''Invalid authority type for SSH resolver: foo'')"
  by (simp add: resolve_def authority_parts_def REMOTE_SSH_AUTHORITY_def tmpl_str_def)

text \<open>
  Claim C9. Let the host have no entry in the platform override map and let the probe
  command fail with \<open>err\<close>. Then the failure is logged, the bootstrap routine is called
  with an undefined platform hint, and the outcome of \<^verbatim>\<open>resolve\<close> is decided by the
  later steps: if bootstrap, port allocation and tunnel succeed, it resolves.
\<close>

theorem probe_failure_is_tolerated:
  assumes "fst (authority_parts authority) = Some REMOTE_SSH_AUTHORITY"
    and "parseEncoded env (snd (authority_parts authority)) = Inr d"
    and "cfg_remotePlatform env (hostname d) = None"
    and "x_promise (exec (config (new_SSHConnection (resolver_options env d)))
           ''uname -s'' None False (probe_events env)) = Rejected err"
  shows "install_calls (snd (resolve env authority n r)) = install_calls r @ [None]
     \<and> LogError ''Failed to detect platform: '' err \<in> set (r_logged (snd (resolve env authority n r)))
     \<and> (installCodeServer env None = Inr sr \<and> findRandomPort env = Inr lp
         \<and> fst (open_tunnel env (new_SSHConnection (resolver_options env d)) sr lp) = Resolved t
         \<longrightarrow> fst (resolve env authority n r)
               = Returns (Resolved \<lparr> res_host = ''localhost'', res_port = lp,
                                     res_connectionToken = connectionToken sr \<rparr>))"
proof -
  let ?c0 = "new_SSHConnection (resolver_options env d)"
  let ?r1 = "r\<lparr> r_logged := r_logged r @
            [LogInfo (''Resolving ssh remote authority '' @ [CHR 0x27] @ authority
               @ [CHR 0x27] @ '' (attempt #'' @ num_toString n @ '')'')] \<rparr>"
  let ?r2 = "?r1\<lparr> sshConnection := Some ?c0,
               r_logged := r_logged ?r1 @ [LogError ''Failed to detect platform: '' err] \<rparr>"
  note res = resolve_accepted[OF assms(1,2), of n r]
  have dp: "detect_platform env ?c0 d (?r1\<lparr> sshConnection := Some ?c0 \<rparr>) = (Resolved None, ?r2)"
    using assms(3,4) by (simp add: detect_platform_cases truthy_str_def)
  note task = resolve_task_detected[OF dp]
  have calls: "install_calls (snd (resolve env authority n r)) = install_calls r @ [None]"
    unfolding res task
    by (simp add: task_catch_simps split: sum.splits promise.splits)
  have lg: "LogError ''Failed to detect platform: '' err
      \<in> set (r_logged (snd (resolve env authority n r)))"
    unfolding res task
    by (simp add: task_catch_simps split: sum.splits promise.splits)
  have ok: "fst (resolve env authority n r)
               = Returns (Resolved \<lparr> res_host = ''localhost'', res_port = lp,
                                     res_connectionToken = connectionToken sr \<rparr>)"
    if "installCodeServer env None = Inr sr \<and> findRandomPort env = Inr lp
         \<and> fst (open_tunnel env ?c0 sr lp) = Resolved t"
    unfolding res task using that by simp
  from calls lg ok show ?thesis by blast
qed

theorem probe_failure_is_tolerated_witness:
  "(let env = \<lparr> parseEncoded = (\<lambda>x. case x of None \<Rightarrow> Inl (Error ''no destination'')
            | Some h \<Rightarrow> Inr \<lparr> hostname = h, dest_port = None, user = Some ''alice'' \<rparr>),
          cfg_remotePlatform = (\<lambda>h. None), cfg_connectTimeout = 60, env_USER = None,
          probe_events = [ProcError (Error ''spawn ssh ENOENT'')],
          installCodeServer = (\<lambda>p. Inr \<lparr> listeningOn = Inl 8000, connectionToken = ''tok'' \<rparr>),
          findRandomPort = Inr 40000, tunnel_events = [GraceTimer 0] \<rparr>
    in install_calls (snd (resolve env ''ssh-remote+example.com'' 1 new_resolver)) = [None]
       \<and> LogError ''Failed to detect platform: '' (Error ''spawn ssh ENOENT'')
           \<in> set (r_logged (snd (resolve env ''ssh-remote+example.com'' 1 new_resolver)))
       \<and> fst (resolve env ''ssh-remote+example.com'' 1 new_resolver)
           = Returns (Resolved \<lparr> res_host = ''localhost'', res_port = 40000,
                                 res_connectionToken = ''tok'' \<rparr>))"
proof -
  have a: "fst (authority_parts ''ssh-remote+example.com'') = Some REMOTE_SSH_AUTHORITY"
    "snd (authority_parts ''ssh-remote+example.com'') = Some ''example.com''"
    by (simp_all add: authority_parts_def REMOTE_SSH_AUTHORITY_def)
  have p: "x_promise (exec (config (new_SSHConnection (resolver_options \<lparr> parseEncoded = (\<lambda>x. case x of None \<Rightarrow> Inl (Error ''no destination'')
            | Some h \<Rightarrow> Inr \<lparr> hostname = h, dest_port = None, user = Some ''alice'' \<rparr>),
          cfg_remotePlatform = (\<lambda>h. None), cfg_connectTimeout = 60, env_USER = None,
          probe_events = [ProcError (Error ''spawn ssh ENOENT'')],
          installCodeServer = (\<lambda>p. Inr \<lparr> listeningOn = Inl 8000, connectionToken = ''tok'' \<rparr>),
          findRandomPort = Inr 40000, tunnel_events = [GraceTimer 0] \<rparr> \<lparr> hostname = ''example.com'', dest_port = None, user = Some ''alice'' \<rparr>)))
           ''uname -s'' None False (probe_events \<lparr> parseEncoded = (\<lambda>x. case x of None \<Rightarrow> Inl (Error ''no destination'')
            | Some h \<Rightarrow> Inr \<lparr> hostname = h, dest_port = None, user = Some ''alice'' \<rparr>),
          cfg_remotePlatform = (\<lambda>h. None), cfg_connectTimeout = 60, env_USER = None,
          probe_events = [ProcError (Error ''spawn ssh ENOENT'')],
          installCodeServer = (\<lambda>p. Inr \<lparr> listeningOn = Inl 8000, connectionToken = ''tok'' \<rparr>),
          findRandomPort = Inr 40000, tunnel_events = [GraceTimer 0] \<rparr>)) = Rejected (Error ''spawn ssh ENOENT'')"
    by (simp add: exec_def exec_on_def exec_init_def settle_def)
  have t: "fst (open_tunnel \<lparr> parseEncoded = (\<lambda>x. case x of None \<Rightarrow> Inl (Error ''no destination'')
            | Some h \<Rightarrow> Inr \<lparr> hostname = h, dest_port = None, user = Some ''alice'' \<rparr>),
          cfg_remotePlatform = (\<lambda>h. None), cfg_connectTimeout = 60, env_USER = None,
          probe_events = [ProcError (Error ''spawn ssh ENOENT'')],
          installCodeServer = (\<lambda>p. Inr \<lparr> listeningOn = Inl 8000, connectionToken = ''tok'' \<rparr>),
          findRandomPort = Inr 40000, tunnel_events = [GraceTimer 0] \<rparr>
        (new_SSHConnection (resolver_options \<lparr> parseEncoded = (\<lambda>x. case x of None \<Rightarrow> Inl (Error ''no destination'')
            | Some h \<Rightarrow> Inr \<lparr> hostname = h, dest_port = None, user = Some ''alice'' \<rparr>),
          cfg_remotePlatform = (\<lambda>h. None), cfg_connectTimeout = 60, env_USER = None,
          probe_events = [ProcError (Error ''spawn ssh ENOENT'')],
          installCodeServer = (\<lambda>p. Inr \<lparr> listeningOn = Inl 8000, connectionToken = ''tok'' \<rparr>),
          findRandomPort = Inr 40000, tunnel_events = [GraceTimer 0] \<rparr> \<lparr> hostname = ''example.com'', dest_port = None, user = Some ''alice'' \<rparr>)) \<lparr> listeningOn = Inl 8000, connectionToken = ''tok'' \<rparr> 40000)
      = Resolved (TunnelObj \<lparr> remoteAddr = Some ''localhost'', localPort = Some 40000,
          remotePort = Some 8000, remoteSocketPath = None, name = Some ''localhost@8000'',
          process = 0 \<rparr>)"
    by (simp add: open_tunnel_def server_tunnelConfig_def tunnel_defs num_toString_def digits.simps)
  from probe_failure_is_tolerated [of "''ssh-remote+example.com''" "\<lparr> parseEncoded = (\<lambda>x. case x of None \<Rightarrow> Inl (Error ''no destination'')
            | Some h \<Rightarrow> Inr \<lparr> hostname = h, dest_port = None, user = Some ''alice'' \<rparr>),
          cfg_remotePlatform = (\<lambda>h. None), cfg_connectTimeout = 60, env_USER = None,
          probe_events = [ProcError (Error ''spawn ssh ENOENT'')],
          installCodeServer = (\<lambda>p. Inr \<lparr> listeningOn = Inl 8000, connectionToken = ''tok'' \<rparr>),
          findRandomPort = Inr 40000, tunnel_events = [GraceTimer 0] \<rparr>" "\<lparr> hostname = ''example.com'', dest_port = None, user = Some ''alice'' \<rparr>"
      "Error ''spawn ssh ENOENT''" 1 new_resolver "\<lparr> listeningOn = Inl 8000, connectionToken = ''tok'' \<rparr>" 40000, OF a(1) _ _ p] a(2) t
  show ?thesis
    by (simp add: Let_def new_resolver_def)
qed

end
